theory Spec2Isabelle
  imports Complex_Main "HOL-Library.Word"
begin

section \<open>Errors\<close>

text \<open>
  The exceptions the modelled functions of \<^verbatim>\<open>ffi.py\<close> raise, by their Python class.
  \<open>GFLibraryError\<close> and \<open>FaultGeometryError\<close> are the module's own classes; the others are
  raised by the interpreter or by numpy (a missing attribute, a missing dictionary key,
  an index out of range, a name that is bound nowhere, a shape that does not fit).
\<close>

datatype error =
    TypeError
  | ValueError
  | AttributeError
  | KeyError
  | IndexError
  | NameError
  | GFLibraryError
  | FaultGeometryError

text \<open>
  Calls in sequence on one object: \<open>and_then r f\<close> hands the result of a call to the
  next call, and an exception ends the sequence.
\<close>

fun and_then :: "error + 'a \<Rightarrow> ('a \<Rightarrow> error + 'b) \<Rightarrow> error + 'b" where
  "and_then (Inl e) f = Inl e"
| "and_then (Inr x) f = f x"

section \<open>Fault ordering\<close>

text \<open>
  \<^verbatim>\<open>PatchMap = collections.namedtuple('PatchMap', 'count, slc, shp, npatches')\<close>.
  A slice \<^verbatim>\<open>slice(a, b)\<close> is the pair \<open>(a, b)\<close>; the shape is the pair \<open>(npw, npl)\<close>.
  Python integers are unbounded, hence \<open>int\<close>. The attribute \<^verbatim>\<open>npatches\<close> of the
  ordering is the field \<open>fo_npatches\<close>.
\<close>

datatype PatchMap =
  PatchMap (count: int) (slc: "int \<times> int") (shp: "int \<times> int") (npatches: int)

record FaultOrdering =
  vmap :: "PatchMap list"
  fo_npatches :: int

text \<open>
  The loop of \<^verbatim>\<open>FaultOrdering.__init__\<close> over \<^verbatim>\<open>zip(npls, npws)\<close>, with its three
  variables \<^verbatim>\<open>self.vmap\<close>, \<^verbatim>\<open>dim\<close> and \<^verbatim>\<open>count\<close> as accumulators. It returns
  the final \<^verbatim>\<open>vmap\<close> and \<^verbatim>\<open>dim\<close>.
\<close>

fun ordering_loop ::
  "(int \<times> int) list \<Rightarrow> PatchMap list \<Rightarrow> int \<Rightarrow> int \<Rightarrow> PatchMap list \<times> int" where
  "ordering_loop [] vm dm cnt = (vm, dm)"
| "ordering_loop ((npl, npw) # rest) vm dm cnt =
     (let np = npl * npw;
          sl = (dm, dm + np);
          sh = (npw, npl)
      in ordering_loop rest (vm @ [PatchMap cnt sl sh np]) (dm + np) (cnt + 1))"

text \<open>
  \<^verbatim>\<open>FaultOrdering.__init__(self, npls, npws)\<close>. Python's \<^verbatim>\<open>zip\<close> stops at the shorter
  list, as \<^const>\<open>zip\<close> does; the constructor has no check and no \<^verbatim>\<open>raise\<close>.
\<close>

definition FaultOrdering_init :: "int list \<Rightarrow> int list \<Rightarrow> FaultOrdering" where
  "FaultOrdering_init npls npws =
     (case ordering_loop (zip npls npws) [] 0 0 of
        (vm, dm) \<Rightarrow> \<lparr>vmap = vm, fo_npatches = dm\<rparr>)"

text \<open>
  The indices a Python slice \<^verbatim>\<open>slice(a, b)\<close> selects from a sequence of length \<open>n\<close>
  (\<^verbatim>\<open>range(*slice(a, b).indices(n))\<close>): a negative bound counts from the end, and both
  bounds are clipped to \<open>0 .. n\<close>.
\<close>

definition slice_bound :: "int \<Rightarrow> int \<Rightarrow> int" where
  "slice_bound n i = (if i < 0 then max 0 (i + n) else min i n)"

definition slice_indices :: "int \<Rightarrow> int \<times> int \<Rightarrow> int list" where
  "slice_indices n s = [slice_bound n (fst s) .. slice_bound n (snd s) - 1]"

text \<open>
  The entries the loop appends, in closed form: one per pair, from the running offset
  \<^verbatim>\<open>dim\<close> and the running ordinal \<^verbatim>\<open>count\<close>. The lemma \<open>ordering_loop_eq\<close> below
  shows that the loop computes exactly these.
\<close>

fun patch_maps :: "(int \<times> int) list \<Rightarrow> int \<Rightarrow> int \<Rightarrow> PatchMap list" where
  "patch_maps [] dm cnt = []"
| "patch_maps ((npl, npw) # rest) dm cnt =
     PatchMap cnt (dm, dm + npl * npw) (npw, npl) (npl * npw)
       # patch_maps rest (dm + npl * npw) (cnt + 1)"

section \<open>Fault geometry\<close>

text \<open>
  \<^verbatim>\<open>class FaultGeometry\<close>: the declared datatypes and components, the dictionary
  \<^verbatim>\<open>_ext_sources\<close> from key strings to extended sources, and the ordering. The sources
  are objects of an external library and stay abstract (\<open>'src\<close>). The fields
  \<^verbatim>\<open>datatypes\<close> and \<^verbatim>\<open>components\<close> carry the prefix \<open>fg_\<close>, since \<open>datatypes\<close> is a
  keyword of Isabelle.
\<close>

record 'src FaultGeometry =
  fg_datatypes :: "string list"
  fg_components :: "string list"
  ext_sources :: "string \<rightharpoonup> 'src"
  ordering :: FaultOrdering

definition FaultGeometry_init ::
  "string list \<Rightarrow> string list \<Rightarrow> FaultOrdering \<Rightarrow> 'src FaultGeometry" where
  "FaultGeometry_init dts comps ord =
     \<lparr>fg_datatypes = dts, fg_components = comps, ext_sources = Map.empty, ordering = ord\<rparr>"

definition nsubfaults :: "'src FaultGeometry \<Rightarrow> int" where
  "nsubfaults fg = int (length (vmap (ordering fg)))"

definition nsubpatches :: "'src FaultGeometry \<Rightarrow> int" where
  "nsubpatches fg = fo_npatches (ordering fg)"

definition check_datatype :: "'src FaultGeometry \<Rightarrow> string \<Rightarrow> error + unit" where
  "check_datatype fg datatype =
     (if datatype \<notin> set (fg_datatypes fg) then Inl TypeError else Inr ())"

definition check_component :: "'src FaultGeometry \<Rightarrow> string \<Rightarrow> error + unit" where
  "check_component fg component =
     (if component \<notin> set (fg_components fg) then Inl TypeError else Inr ())"

text \<open>\<^verbatim>\<open>_check_index\<close> compares with the upper bound only.\<close>

definition check_index :: "'src FaultGeometry \<Rightarrow> int \<Rightarrow> error + unit" where
  "check_index fg index = (if index > nsubfaults fg - 1 then Inl TypeError else Inr ())"

text \<open>
  Python's \<^verbatim>\<open>xs[i]\<close> on a list: a negative index counts from the end, and an index
  outside \<open>-len .. len - 1\<close> raises \<^verbatim>\<open>IndexError\<close>.
\<close>

definition py_index :: "'a list \<Rightarrow> int \<Rightarrow> error + 'a" where
  "py_index xs i =
     (if 0 \<le> i \<and> i < int (length xs) then Inr (xs ! nat i)
      else if - int (length xs) \<le> i \<and> i < 0 then Inr (xs ! nat (i + int (length xs)))
      else Inl IndexError)"

text \<open>Python's \<^verbatim>\<open>str\<close> of an integer: decimal digits, with a minus sign when negative.\<close>

fun str_nat :: "nat \<Rightarrow> string" where
  "str_nat n = (if n < 10 then [''0123456789'' ! n] else str_nat (n div 10) @ [''0123456789'' ! (n mod 10)])"

definition str_int :: "int \<Rightarrow> string" where
  "str_int i = (if i < 0 then CHR ''-'' # str_nat (nat (- i)) else str_nat (nat i))"

text \<open>
  \<^verbatim>\<open>get_subfault_key(index, datatype, component)\<close>. An argument given as \<^verbatim>\<open>None\<close>
  stands for the first declared datatype or component (\<^verbatim>\<open>self.datatypes[0]\<close>, which
  raises \<^verbatim>\<open>IndexError\<close> on an empty list); a given one must be declared.
\<close>

definition get_subfault_key ::
  "'src FaultGeometry \<Rightarrow> int \<Rightarrow> string option \<Rightarrow> string option \<Rightarrow> error + string" where
  "get_subfault_key fg index datatype component =
     (case (case datatype of
              Some dt \<Rightarrow> (case check_datatype fg dt of Inl e \<Rightarrow> Inl e | Inr _ \<Rightarrow> Inr dt)
            | None \<Rightarrow> py_index (fg_datatypes fg) 0) of
        Inl e \<Rightarrow> Inl e
      | Inr dt \<Rightarrow>
          (case (case component of
                   Some c \<Rightarrow> (case check_component fg c of Inl e \<Rightarrow> Inl e | Inr _ \<Rightarrow> Inr c)
                 | None \<Rightarrow> py_index (fg_components fg) 0) of
             Inl e \<Rightarrow> Inl e
           | Inr c \<Rightarrow>
               (case check_index fg index of
                  Inl e \<Rightarrow> Inl e
                | Inr _ \<Rightarrow> Inr (dt @ ''_'' @ c @ ''_'' @ str_int index))))"

text \<open>
  The loop of \<^verbatim>\<open>setup_subfaults\<close> over \<^verbatim>\<open>enumerate(ext_sources)\<close>. The stored
  \<^verbatim>\<open>copy.deepcopy(source)\<close> is the value itself. On an error the model returns the
  error alone.
\<close>

fun setup_subfaults_loop ::
  "'src FaultGeometry \<Rightarrow> string \<Rightarrow> string \<Rightarrow> bool \<Rightarrow> int \<Rightarrow> 'src list \<Rightarrow> error + 'src FaultGeometry"
  where
  "setup_subfaults_loop fg datatype component replace i [] = Inr fg"
| "setup_subfaults_loop fg datatype component replace i (source # rest) =
     (case get_subfault_key fg i (Some datatype) (Some component) of
        Inl e \<Rightarrow> Inl e
      | Inr source_key \<Rightarrow>
          if ext_sources fg source_key = None \<or> replace
          then setup_subfaults_loop
                 (fg\<lparr>ext_sources := (ext_sources fg)(source_key \<mapsto> source)\<rparr>)
                 datatype component replace (i + 1) rest
          else Inl FaultGeometryError)"

definition setup_subfaults ::
  "'src FaultGeometry \<Rightarrow> string \<Rightarrow> string \<Rightarrow> 'src list \<Rightarrow> bool \<Rightarrow> error + 'src FaultGeometry"
  where
  "setup_subfaults fg datatype component srcs replace =
     (case check_datatype fg datatype of
        Inl e \<Rightarrow> Inl e
      | Inr _ \<Rightarrow>
          (case check_component fg component of
             Inl e \<Rightarrow> Inl e
           | Inr _ \<Rightarrow>
               if int (length srcs) \<noteq> nsubfaults fg then Inl FaultGeometryError
               else setup_subfaults_loop fg datatype component replace 0 srcs))"

text \<open>\<^verbatim>\<open>get_subfault(index, datatype=None, component=None)\<close>.\<close>

definition get_subfault ::
  "'src FaultGeometry \<Rightarrow> int \<Rightarrow> string option \<Rightarrow> string option \<Rightarrow> error + 'src" where
  "get_subfault fg index datatype component =
     (case get_subfault_key fg index datatype component of
        Inl e \<Rightarrow> Inl e
      | Inr source_key \<Rightarrow>
          (case ext_sources fg source_key of
             Some s \<Rightarrow> Inr s
           | None \<Rightarrow> Inl FaultGeometryError))"

text \<open>
  \<^verbatim>\<open>get_subfault_patches(index, datatype=None, component=None)\<close>. The method
  \<^verbatim>\<open>subfault.patches(nl, nw, datatype)\<close> belongs to the external source class; it is the
  parameter \<open>patches\<close>, receiving the source, \<^verbatim>\<open>nl\<close>, \<^verbatim>\<open>nw\<close> and the datatype argument
  as it was passed.
\<close>

definition get_subfault_patches ::
  "'src FaultGeometry \<Rightarrow> ('src \<Rightarrow> int \<Rightarrow> int \<Rightarrow> string option \<Rightarrow> 'patch list) \<Rightarrow>
     int \<Rightarrow> string option \<Rightarrow> string option \<Rightarrow> error + 'patch list" where
  "get_subfault_patches fg patches index datatype component =
     (case check_index fg index of
        Inl e \<Rightarrow> Inl e
      | Inr _ \<Rightarrow>
          (case get_subfault fg index datatype component of
             Inl e \<Rightarrow> Inl e
           | Inr subfault \<Rightarrow>
               (case py_index (vmap (ordering fg)) index of
                  Inl e \<Rightarrow> Inl e
                | Inr pm \<Rightarrow>
                    (case shp pm of (npw, npl) \<Rightarrow> Inr (patches subfault npl npw datatype)))))"

text \<open>
  The loop of \<^verbatim>\<open>get_all_patches\<close> over \<^verbatim>\<open>range(self.nsubfaults)\<close>, with the list
  \<^verbatim>\<open>patches\<close> as accumulator.
\<close>

fun all_patches_loop ::
  "'src FaultGeometry \<Rightarrow> ('src \<Rightarrow> int \<Rightarrow> int \<Rightarrow> string option \<Rightarrow> 'patch list) \<Rightarrow>
     string option \<Rightarrow> string option \<Rightarrow> int list \<Rightarrow> 'patch list \<Rightarrow> error + 'patch list" where
  "all_patches_loop fg patches datatype component [] acc = Inr acc"
| "all_patches_loop fg patches datatype component (i # rest) acc =
     (case get_subfault_patches fg patches i datatype component of
        Inl e \<Rightarrow> Inl e
      | Inr ps \<Rightarrow> all_patches_loop fg patches datatype component rest (acc @ ps))"

definition get_all_patches ::
  "'src FaultGeometry \<Rightarrow> ('src \<Rightarrow> int \<Rightarrow> int \<Rightarrow> string option \<Rightarrow> 'patch list) \<Rightarrow>
     string option \<Rightarrow> string option \<Rightarrow> error + 'patch list" where
  "get_all_patches fg patches datatype component =
     all_patches_loop fg patches datatype component
       (map int [0 ..< length (vmap (ordering fg))]) []"

text \<open>\<^verbatim>\<open>get_patch_indexes(index)\<close>: the index check, then \<^verbatim>\<open>self.ordering.vmap[index].slc\<close>.\<close>

definition get_patch_indexes :: "'src FaultGeometry \<Rightarrow> int \<Rightarrow> error + int \<times> int" where
  "get_patch_indexes fg index =
     (case check_index fg index of
        Inl e \<Rightarrow> Inl e
      | Inr _ \<Rightarrow>
          (case py_index (vmap (ordering fg)) index of
             Inl e \<Rightarrow> Inl e
           | Inr pm \<Rightarrow> Inr (slc pm)))"

section \<open>Seismic Green's function library\<close>

subsection \<open>Arrays\<close>

text \<open>
  The five-dimensional array \<^verbatim>\<open>num.zeros([ntargets, npatches, nrisetimes, nstarttimes,
  nsamples])\<close>: its shape, and its entries as a function of the first four coordinates and
  the sample index. Only entries inside the shape are ever read or written. The entries
  are real numbers: the rounding of floating-point arithmetic is not modelled.
\<close>

record ndarray5 =
  sh0 :: nat
  sh1 :: nat
  sh2 :: nat
  sh3 :: nat
  sh4 :: nat
  dat :: "nat \<times> nat \<times> nat \<times> nat \<Rightarrow> nat \<Rightarrow> real"

definition zeros5 :: "nat \<Rightarrow> nat \<Rightarrow> nat \<Rightarrow> nat \<Rightarrow> nat \<Rightarrow> ndarray5" where
  "zeros5 n0 n1 n2 n3 n4 =
     \<lparr>sh0 = n0, sh1 = n1, sh2 = n2, sh3 = n3, sh4 = n4, dat = (\<lambda>c k. 0)\<rparr>"

text \<open>
  \<^verbatim>\<open>num.arange(npatches, dtype='int16')\<close>: the values \<open>0, 1, \<dots>\<close> stored as 16-bit signed
  integers, which wrap around from 32767 to -32768.
\<close>

definition arange_int16 :: "nat \<Rightarrow> int list" where
  "arange_int16 n = map (\<lambda>i. sint (word_of_nat i :: 16 word)) [0 ..< n]"

text \<open>
  The value given to \<^verbatim>\<open>put\<close> as \<^verbatim>\<open>entries\<close>: a one-dimensional array, or a
  two-dimensional array \<open>Arr2 ncols rows\<close> of shape \<open>(length rows, ncols)\<close>, every row of
  length \<open>ncols\<close>. Arrays of more dimensions are not modelled.
\<close>

datatype entries = Arr1 "real list" | Arr2 nat "real list list"

text \<open>
  numpy's integer indexing along an axis of length \<open>d\<close>: an index is valid from \<open>-d\<close> to
  \<open>d - 1\<close>, and a negative one counts from the end.
\<close>

definition valid_index :: "nat \<Rightarrow> int \<Rightarrow> bool" where
  "valid_index d i \<longleftrightarrow> - int d \<le> i \<and> i < int d"

definition norm_index :: "nat \<Rightarrow> int \<Rightarrow> nat" where
  "norm_index d i = nat (if i < 0 then i + int d else i)"

text \<open>
  numpy's broadcasting of one-dimensional index arrays: two lengths agree when they are
  equal or one of them is 1. \<open>bget xs j\<close> is element \<open>j\<close> of \<open>xs\<close> after broadcasting.
\<close>

definition broadcast2 :: "nat \<Rightarrow> nat \<Rightarrow> nat option" where
  "broadcast2 m n =
     (if m = n then Some m else if m = 1 then Some n else if n = 1 then Some m else None)"

definition broadcast3 :: "nat \<Rightarrow> nat \<Rightarrow> nat \<Rightarrow> nat option" where
  "broadcast3 l m n = (case broadcast2 l m of None \<Rightarrow> None | Some k \<Rightarrow> broadcast2 k n)"

definition bget :: "'a list \<Rightarrow> nat \<Rightarrow> 'a" where
  "bget xs j = (if length xs = 1 then xs ! 0 else xs ! j)"

text \<open>
  Three index arrays used together in one index expression, as in \<^verbatim>\<open>[..., patchidxs,
  risetimeidxs, starttimeidxs, :]\<close>: the arrays are broadcast to a common length \<open>n\<close>,
  every index is checked against its axis, and entry \<open>j\<close> of the selection is taken at
  the \<open>j\<close>-th indices. Both failures are an \<^verbatim>\<open>IndexError\<close>.
\<close>

definition fancy_triples ::
  "ndarray5 \<Rightarrow> int list \<Rightarrow> int list \<Rightarrow> int list \<Rightarrow> error + (nat \<times> nat \<times> nat) list" where
  "fancy_triples a ps rs ss =
     (case broadcast3 (length ps) (length rs) (length ss) of
        None \<Rightarrow> Inl IndexError
      | Some n \<Rightarrow>
          if list_all (valid_index (sh1 a)) ps \<and> list_all (valid_index (sh2 a)) rs \<and>
             list_all (valid_index (sh3 a)) ss
          then Inr (map (\<lambda>j. (norm_index (sh1 a) (bget ps j), norm_index (sh2 a) (bget rs j),
                               norm_index (sh3 a) (bget ss j)))
                      [0 ..< n])
          else Inl IndexError)"

text \<open>
  The coordinates selected by \<^verbatim>\<open>[tidx, patchidxs, risetimeidxs, starttimeidxs, :]\<close>
  with an integer \<open>tidx\<close>.
\<close>

definition fancy_coords ::
  "ndarray5 \<Rightarrow> int \<Rightarrow> int list \<Rightarrow> int list \<Rightarrow> int list \<Rightarrow> error + (nat \<times> nat \<times> nat \<times> nat) list"
  where
  "fancy_coords a tidx ps rs ss =
     (if \<not> valid_index (sh0 a) tidx then Inl IndexError
      else
        (case fancy_triples a ps rs ss of
           Inl e \<Rightarrow> Inl e
         | Inr ts \<Rightarrow> Inr (map (\<lambda>(p, r, s). (norm_index (sh0 a) tidx, p, r, s)) ts)))"

definition read_row :: "ndarray5 \<Rightarrow> nat \<times> nat \<times> nat \<times> nat \<Rightarrow> real list" where
  "read_row a c = map (dat a c) [0 ..< sh4 a]"

definition write_row :: "ndarray5 \<Rightarrow> nat \<times> nat \<times> nat \<times> nat \<Rightarrow> real list \<Rightarrow> ndarray5" where
  "write_row a c row = a\<lparr>dat := (dat a)(c := (\<lambda>k. if k < sh4 a then row ! k else dat a c k))\<rparr>"

text \<open>
  The assignment \<^verbatim>\<open>a[tidx, patchidx, risetimeidxs, starttimeidxs, :] = entries\<close> with a
  two-dimensional value of shape \<open>(length rows, ncols)\<close>. The selection has shape
  \<open>(n, sh4 a)\<close>; the value must have \<open>sh4 a\<close> columns and \<open>n\<close> rows, or one row that is
  written to every selected coordinate (\<^verbatim>\<open>ValueError\<close> otherwise). The rows are
  written in order, so that of two writes to one coordinate the later one stays.
\<close>

definition assign_rows ::
  "ndarray5 \<Rightarrow> int \<Rightarrow> int \<Rightarrow> int list \<Rightarrow> int list \<Rightarrow> nat \<Rightarrow> real list list \<Rightarrow> error + ndarray5"
  where
  "assign_rows a tidx patchidx rs ss ncols rows =
     (case fancy_coords a tidx [patchidx] rs ss of
        Inl e \<Rightarrow> Inl e
      | Inr cs \<Rightarrow>
          if ncols \<noteq> sh4 a \<or> (length rows \<noteq> length cs \<and> length rows \<noteq> 1) then Inl ValueError
          else Inr (fold (\<lambda>j b. write_row b (cs ! j) (bget rows j)) [0 ..< length cs] a))"

text \<open>
  \<^verbatim>\<open>x.reshape((m, c))\<close> of a two-dimensional \<open>x\<close> given by its rows: the entries in
  row-major order, cut into \<open>m\<close> rows of length \<open>c\<close>; a \<^verbatim>\<open>ValueError\<close> when the number
  of entries is not \<open>m * c\<close>.
\<close>

definition reshape2 :: "nat \<Rightarrow> nat \<Rightarrow> real list list \<Rightarrow> error + real list list" where
  "reshape2 m c rows =
     (if length (concat rows) \<noteq> m * c then Inl ValueError
      else Inr (map (\<lambda>j. take c (drop (j * c) (concat rows))) [0 ..< m]))"

text \<open>
  \<^verbatim>\<open>x.T.dot(slips)\<close> for \<open>x\<close> of shape \<open>(length slips, c)\<close>: entry \<open>k\<close> of the result is
  the sum over \<open>j\<close> of \<open>x[j, k] * slips[j]\<close>.
\<close>

definition dot_T :: "nat \<Rightarrow> real list list \<Rightarrow> real list \<Rightarrow> real list" where
  "dot_T c rows slips =
     map (\<lambda>k. sum_list (map (\<lambda>j. rows ! j ! k * slips ! j) [0 ..< length slips])) [0 ..< c]"

text \<open>
  \<^verbatim>\<open>x.reshape((n0, n1, c))\<close> of a three-dimensional \<open>x\<close> given as a list of lists of
  rows: again the entries in row-major order, regrouped.
\<close>

definition reshape3 ::
  "nat \<Rightarrow> nat \<Rightarrow> nat \<Rightarrow> real list list list \<Rightarrow> error + real list list list" where
  "reshape3 n0 n1 c x =
     (if length (concat (concat x)) \<noteq> n0 * n1 * c then Inl ValueError
      else Inr (map (\<lambda>t. map (\<lambda>p. take c (drop ((t * n1 + p) * c) (concat (concat x))))
                            [0 ..< n1])
                  [0 ..< n0]))"

subsection \<open>The library object\<close>

text \<open>
  \<^verbatim>\<open>class SeismicGFLibrary\<close>. The arrays live in a store \<open>heap\<close> from addresses to
  arrays, and the attributes \<^verbatim>\<open>_gfmatrix\<close>, \<^verbatim>\<open>_sgfmatrix\<close> and the values of the
  dictionary \<^verbatim>\<open>_stack_switch\<close> are addresses, so that two attributes can name one
  array. \<open>nalloc\<close> is the next unused address. An attribute that is \<^verbatim>\<open>None\<close> is
  \<open>None\<close>; for \<^verbatim>\<open>_stack_switch\<close>, which \<^verbatim>\<open>__init__\<close> does not create, \<open>None\<close> says
  that the attribute does not exist. The attribute \<^verbatim>\<open>event\<close> is not used by the
  modelled methods and is left out; the unused \<^verbatim>\<open>_risetimes2index\<close> and
  \<^verbatim>\<open>_starttimes2index\<close> likewise.
\<close>

record ('tgt, 'stn) SeismicGFLibrary =
  slip_component :: string
  targets :: "'tgt list"
  stations :: "'stn list"
  patchidxs :: "int list option"
  gfmatrix :: "nat option"
  sgfmatrix :: "nat option"
  stack_switch :: "(string \<times> nat) list option"
  mode :: string
  target2index :: "('tgt \<rightharpoonup> nat) option"
  heap :: "nat \<Rightarrow> ndarray5"
  nalloc :: nat

text \<open>
  \<^verbatim>\<open>__init__(self, component=None, event=None, targets=[], stations=[])\<close>. No
  attribute of a new object names an array, and every address of its store holds an
  empty array. The record field for \<^verbatim>\<open>component\<close> is \<open>slip_component\<close>.
\<close>

definition SeismicGFLibrary_init ::
  "string option \<Rightarrow> 'tgt list \<Rightarrow> 'stn list \<Rightarrow> error + ('tgt, 'stn) SeismicGFLibrary" where
  "SeismicGFLibrary_init cpt tgts stns =
     (case cpt of
        None \<Rightarrow> Inl TypeError
      | Some c \<Rightarrow>
          Inr \<lparr>slip_component = c, targets = tgts, stations = stns, patchidxs = None,
               gfmatrix = None, sgfmatrix = None, stack_switch = None, mode = ''numpy'',
               target2index = None, heap = (\<lambda>_. zeros5 0 0 0 0 0), nalloc = 0\<rparr>)"

definition check_setup :: "('tgt, 'stn) SeismicGFLibrary \<Rightarrow> error + unit" where
  "check_setup L = (if gfmatrix L = None then Inl GFLibraryError else Inr ())"

definition nstations :: "('tgt, 'stn) SeismicGFLibrary \<Rightarrow> nat" where
  "nstations L = length (stations L)"

text \<open>The shape properties: \<^verbatim>\<open>self._check_setup()\<close>, then an entry of \<^verbatim>\<open>self._gfmatrix.shape\<close>.\<close>

definition shape_property ::
  "(ndarray5 \<Rightarrow> nat) \<Rightarrow> ('tgt, 'stn) SeismicGFLibrary \<Rightarrow> error + nat" where
  "shape_property sh L =
     (case gfmatrix L of None \<Rightarrow> Inl GFLibraryError | Some a \<Rightarrow> Inr (sh (heap L a)))"

definition lib_ntargets :: "('tgt, 'stn) SeismicGFLibrary \<Rightarrow> error + nat" where
  "lib_ntargets = shape_property sh0"

definition lib_npatches :: "('tgt, 'stn) SeismicGFLibrary \<Rightarrow> error + nat" where
  "lib_npatches = shape_property sh1"

definition lib_nrisetimes :: "('tgt, 'stn) SeismicGFLibrary \<Rightarrow> error + nat" where
  "lib_nrisetimes = shape_property sh2"

definition lib_nstarttimes :: "('tgt, 'stn) SeismicGFLibrary \<Rightarrow> error + nat" where
  "lib_nstarttimes = shape_property sh3"

definition lib_nsamples :: "('tgt, 'stn) SeismicGFLibrary \<Rightarrow> error + nat" where
  "lib_nsamples = shape_property sh4"

text \<open>
  \<^verbatim>\<open>setup(ntargets, npatches, nrisetimes, nstarttimes, nsamples)\<close>, named
  \<open>setup_library\<close> here. The arguments are
  Python integers; \<^verbatim>\<open>num.zeros\<close> raises \<^verbatim>\<open>ValueError\<close> on a negative dimension. The
  new array gets a fresh address. Nothing else is assigned: \<^verbatim>\<open>_sgfmatrix\<close> and
  \<^verbatim>\<open>_stack_switch\<close> keep what they hold.
\<close>

definition setup_library ::
  "('tgt, 'stn) SeismicGFLibrary \<Rightarrow> int \<Rightarrow> int \<Rightarrow> int \<Rightarrow> int \<Rightarrow> int \<Rightarrow>
     error + ('tgt, 'stn) SeismicGFLibrary" where
  "setup_library L n_targets n_patches n_risetimes n_starttimes n_samples =
     (if n_targets \<noteq> int (nstations L) then Inl GFLibraryError
      else if n_targets < 0 \<or> n_patches < 0 \<or> n_risetimes < 0 \<or> n_starttimes < 0 \<or> n_samples < 0
        then Inl ValueError
      else Inr (L\<lparr>heap := (heap L)(nalloc L :=
                      zeros5 (nat n_targets) (nat n_patches) (nat n_risetimes) (nat n_starttimes)
                        (nat n_samples)),
                  nalloc := nalloc L + 1,
                  gfmatrix := Some (nalloc L),
                  patchidxs := Some (arange_int16 (nat n_patches))\<rparr>))"

text \<open>
  \<^verbatim>\<open>target_index_mapping()\<close>: the dictionary \<^verbatim>\<open>dict((target, i) for (i, target) in
  enumerate(self.targets))\<close>, in which a target that occurs twice keeps its last
  position, built at the first call and kept in \<^verbatim>\<open>_target2index\<close>.
\<close>

definition target_dict :: "'tgt list \<Rightarrow> ('tgt \<rightharpoonup> nat)" where
  "target_dict tgts = fold (\<lambda>(i, target) m. m(target \<mapsto> i)) (List.enumerate 0 tgts) Map.empty"

definition target_index_mapping ::
  "('tgt, 'stn) SeismicGFLibrary \<Rightarrow> ('tgt \<rightharpoonup> nat) \<times> ('tgt, 'stn) SeismicGFLibrary" where
  "target_index_mapping L =
     (case target2index L of
        None \<Rightarrow> (target_dict (targets L), L\<lparr>target2index := Some (target_dict (targets L))\<rparr>)
      | Some m \<Rightarrow> (m, L))"

text \<open>
  \<^verbatim>\<open>set_stack_mode(mode)\<close>. Reading \<^verbatim>\<open>self._stack_switch\<close> raises
  \<^verbatim>\<open>AttributeError\<close> while the attribute does not exist. For a mode that is no key,
  the \<^verbatim>\<open>raise GFLibraryError(...)\<close> statement first formats its message with two
  \<^verbatim>\<open>%s\<close> and the single string \<^verbatim>\<open>utility.list2string(available_modes)\<close>, which
  raises \<^verbatim>\<open>TypeError\<close>.
\<close>

definition set_stack_mode ::
  "('tgt, 'stn) SeismicGFLibrary \<Rightarrow> string \<Rightarrow> error + ('tgt, 'stn) SeismicGFLibrary" where
  "set_stack_mode L md =
     (case stack_switch L of
        None \<Rightarrow> Inl AttributeError
      | Some sw \<Rightarrow>
          if md \<notin> set (map fst sw) then Inl TypeError
          else Inr (L\<lparr>mode := md\<rparr>))"

text \<open>
  \<^verbatim>\<open>init_optimization()\<close>. \<^verbatim>\<open>self._gfmatrix.astype(tconfig.floatX)\<close> raises
  \<^verbatim>\<open>AttributeError\<close> on \<^verbatim>\<open>None\<close> and otherwise returns a new array with the same
  entries (as real numbers: a conversion to a \<^verbatim>\<open>floatX\<close> of lower precision is not
  modelled), which \<^verbatim>\<open>shared(..., borrow=True)\<close> wraps: the shared variable is a copy
  at a fresh address. \<^verbatim>\<open>_stack_switch\<close> then names the array that
  \<^verbatim>\<open>_gfmatrix\<close> names now, and the copy.
\<close>

definition init_optimization ::
  "('tgt, 'stn) SeismicGFLibrary \<Rightarrow> error + ('tgt, 'stn) SeismicGFLibrary" where
  "init_optimization L =
     (case gfmatrix L of
        None \<Rightarrow> Inl AttributeError
      | Some a \<Rightarrow>
          set_stack_mode
            (L\<lparr>heap := (heap L)(nalloc L := heap L a),
               nalloc := nalloc L + 1,
               sgfmatrix := Some (nalloc L),
               stack_switch := Some [(''numpy'', a), (''theano'', nalloc L)]\<rparr>)
            ''theano'')"

text \<open>
  \<^verbatim>\<open>put(entries, target, patchidx, risetimeidxs, starttimeidxs)\<close>, with an integer
  \<open>patchidx\<close> and two index arrays. The checks come in the order of the source: the
  number of dimensions, the trace length (reading \<^verbatim>\<open>self.nsamples\<close>, which checks the
  setup), the setup, the target, then the assignment into the array that \<^verbatim>\<open>_gfmatrix\<close>
  names. On an error the model returns the error alone.
\<close>

definition put ::
  "('tgt, 'stn) SeismicGFLibrary \<Rightarrow> entries \<Rightarrow> 'tgt \<Rightarrow> int \<Rightarrow> int list \<Rightarrow> int list \<Rightarrow>
     error + ('tgt, 'stn) SeismicGFLibrary" where
  "put L ents target patchidx risetime_idxs starttime_idxs =
     (case ents of
        Arr1 _ \<Rightarrow> Inl ValueError
      | Arr2 ncols rows \<Rightarrow>
          (case lib_nsamples L of
             Inl e \<Rightarrow> Inl e
           | Inr ns \<Rightarrow>
               if ncols \<noteq> ns then Inl GFLibraryError
               else
                 (case check_setup L of
                    Inl e \<Rightarrow> Inl e
                  | Inr _ \<Rightarrow>
                      (case target_index_mapping L of
                         (t2i, L1) \<Rightarrow>
                           (case t2i target of
                              None \<Rightarrow> Inl KeyError
                            | Some tidx \<Rightarrow>
                                (case gfmatrix L1 of
                                   None \<Rightarrow> Inl GFLibraryError
                                 | Some a \<Rightarrow>
                                     (case assign_rows (heap L1 a) (int tidx) patchidx
                                             risetime_idxs starttime_idxs ncols rows of
                                        Inl e \<Rightarrow> Inl e
                                      | Inr b \<Rightarrow> Inr (L1\<lparr>heap := (heap L1)(a := b)\<rparr>))))))))"

text \<open>
  \<^verbatim>\<open>stack(target, patchidxs, risetimeidxs, starttimeidxs, slips)\<close> with three index
  arrays and a one-dimensional \<open>slips\<close>. The expression is evaluated left to right: the
  target index, the attribute \<^verbatim>\<open>_stack_switch\<close>, its entry for the current mode, the
  selection of rows, \<^verbatim>\<open>self.nsamples\<close>, the \<^verbatim>\<open>reshape\<close>, and the product. The same
  expression serves both backends; for the graph backend the model returns the value
  of the graph. The result comes with the library, in which the first call has
  filled \<^verbatim>\<open>_target2index\<close>.
\<close>

definition stack ::
  "('tgt, 'stn) SeismicGFLibrary \<Rightarrow> 'tgt \<Rightarrow> int list \<Rightarrow> int list \<Rightarrow> int list \<Rightarrow> real list \<Rightarrow>
     error + real list \<times> ('tgt, 'stn) SeismicGFLibrary" where
  "stack L target patch_idxs risetime_idxs starttime_idxs slips =
     (case target_index_mapping L of
        (t2i, L1) \<Rightarrow>
          (case t2i target of
             None \<Rightarrow> Inl KeyError
           | Some tidx \<Rightarrow>
               (case stack_switch L1 of
                  None \<Rightarrow> Inl AttributeError
                | Some sw \<Rightarrow>
                    (case map_of sw (mode L1) of
                       None \<Rightarrow> Inl KeyError
                     | Some a \<Rightarrow>
                         (case fancy_coords (heap L1 a) (int tidx) patch_idxs risetime_idxs
                                 starttime_idxs of
                            Inl e \<Rightarrow> Inl e
                          | Inr cs \<Rightarrow>
                              (case lib_nsamples L1 of
                                 Inl e \<Rightarrow> Inl e
                               | Inr ns \<Rightarrow>
                                   (case reshape2 (length slips) ns
                                           (map (read_row (heap L1 a)) cs) of
                                      Inl e \<Rightarrow> Inl e
                                    | Inr rows \<Rightarrow> Inr (dot_T ns rows slips, L1))))))))"

text \<open>
  \<^verbatim>\<open>stack_all(risetimeidxs, starttimeidxs, slips)\<close>. The selection
  \<^verbatim>\<open>self._sgfmatrix[:, self._patchidxs, risetimeidxs, starttimeidxs, :]\<close> has one
  block of rows per target of the shared array; it is reshaped to the shape that the
  properties \<^verbatim>\<open>ntargets\<close>, \<^verbatim>\<open>npatches\<close>, \<^verbatim>\<open>nsamples\<close> read from \<^verbatim>\<open>_gfmatrix\<close>.
  For a one-dimensional \<open>slips\<close>, \<^verbatim>\<open>batched_dot(d.dimshuffle((1, 0, 2)), slips)\<close> is the
  element-wise product of the matrices \<open>d[:, p, :]\<close> with the amplitudes \<open>slips[p]\<close>
  along the patch axis, where an axis of length 1 is broadcast against the other (one
  amplitude serves every patch; the traces of a single patch serve every amplitude) and
  two lengths that differ otherwise are an error; \<^verbatim>\<open>.sum(axis=0)\<close> adds the products
  along that axis. The model returns the value of the graph. The case of a shared
  array without \<^verbatim>\<open>_patchidxs\<close> cannot arise (\<^verbatim>\<open>init_optimization\<close> needs the array
  that \<^verbatim>\<open>setup\<close> assigns together with \<^verbatim>\<open>_patchidxs\<close>) and is an error here.
\<close>

definition stack_all ::
  "('tgt, 'stn) SeismicGFLibrary \<Rightarrow> int list \<Rightarrow> int list \<Rightarrow> real list \<Rightarrow> error + real list list"
  where
  "stack_all L risetime_idxs starttime_idxs slips =
     (case sgfmatrix L of
        None \<Rightarrow> Inl GFLibraryError
      | Some b \<Rightarrow>
          (case patchidxs L of
             None \<Rightarrow> Inl ValueError
           | Some pidxs \<Rightarrow>
               (case fancy_triples (heap L b) pidxs risetime_idxs starttime_idxs of
                  Inl e \<Rightarrow> Inl e
                | Inr ts \<Rightarrow>
                    (case lib_ntargets L of
                       Inl e \<Rightarrow> Inl e
                     | Inr nt \<Rightarrow>
                         (case lib_npatches L of
                            Inl e \<Rightarrow> Inl e
                          | Inr np \<Rightarrow>
                              (case lib_nsamples L of
                                 Inl e \<Rightarrow> Inl e
                               | Inr ns \<Rightarrow>
                                   (case reshape3 nt np ns
                                           (map (\<lambda>t. map (\<lambda>(p, r, s). read_row (heap L b) (t, p, r, s)) ts)
                                              [0 ..< sh0 (heap L b)]) of
                                      Inl e \<Rightarrow> Inl e
                                    | Inr d \<Rightarrow>
                                        (case broadcast2 np (length slips) of
                                           None \<Rightarrow> Inl ValueError
                                         | Some m \<Rightarrow>
                                             Inr (map (\<lambda>t. map (\<lambda>k. sum_list
                                                    (map (\<lambda>j. bget (d ! t) j ! k * bget slips j)
                                                       [0 ..< m]))
                                                  [0 ..< ns])
                                                [0 ..< nt])))))))))"

text \<open>
  The matrix that the specification gives as the result of \<^verbatim>\<open>stack_all\<close>, written
  from its words and not from the code: for each target of the array \<open>B\<close> and each
  sample, the sum over all patches \<open>p\<close> of \<open>slip_amplitude[p]\<close> times the stored trace at
  \<open>(target, p, risetime_idxs[p], starttime_idxs[p])\<close>. The theorems for \<^verbatim>\<open>stack_all\<close>
  compare the code with it.
\<close>

definition selected_trace :: "ndarray5 \<Rightarrow> int list \<Rightarrow> int list \<Rightarrow> nat \<Rightarrow> nat \<Rightarrow> real list" where
  "selected_trace B rs ss t p =
     read_row B (t, p, norm_index (sh2 B) (rs ! p), norm_index (sh3 B) (ss ! p))"

definition weighted_patch_sum ::
  "ndarray5 \<Rightarrow> int list \<Rightarrow> int list \<Rightarrow> real list \<Rightarrow> real list list" where
  "weighted_patch_sum B rs ss slips =
     map (\<lambda>t. map (\<lambda>k. sum_list (map (\<lambda>p. slips ! p * selected_trace B rs ss t p ! k)
                                  [0 ..< sh1 B]))
                [0 ..< sh4 B])
       [0 ..< sh0 B]"

text \<open>The element-wise sum of a list of waveforms of \<open>c\<close> samples each.\<close>

definition elementwise_sum :: "nat \<Rightarrow> real list list \<Rightarrow> real list" where
  "elementwise_sum c vs = map (\<lambda>k. sum_list (map (\<lambda>v. v ! k) vs)) [0 ..< c]"

section \<open>Construction of the seismic library\<close>

text \<open>
  The names that \<^verbatim>\<open>ffi.py\<close> binds at module level: its imports, constants, classes
  and functions. A name that a function reads without assigning it and without having it
  as a parameter is looked up here, and a name that is not here (and is no builtin)
  raises \<^verbatim>\<open>NameError\<close>.
\<close>

definition module_names :: "string list" where
  "module_names =
     [''heart'', ''utility'', ''fast_sweep'', ''copy'', ''os'', ''logging'', ''collections'',
      ''snuffle'', ''Trace'', ''gf'', ''shared'', ''tconfig'', ''batched_dot'', ''num'', ''km'',
      ''logger'', ''PatchMap'', ''gf_entries'', ''slip_directions'', ''GFLibraryError'',
      ''SeismicGFLibrary'', ''FaultOrdering'', ''FaultGeometryError'', ''FaultGeometry'',
      ''discretize_sources'', ''geo_construct_gf_linear'', ''seis_construct_gf_linear'']"

definition global_name :: "string \<Rightarrow> error + unit" where
  "global_name name = (if name \<in> set module_names then Inr () else Inl NameError)"

text \<open>
  \<^verbatim>\<open>seis_construct_gf_linear\<close>, lines 677 to 681: the five sizes in the order in which
  line 687 passes them to \<^verbatim>\<open>setup\<close> (targets, patches, rise times, start times,
  samples). The number of start times and the number of samples come from external
  computations and are arguments. The patch axis gets \<^verbatim>\<open>npatches = fault.nsubfaults\<close>.
\<close>

definition construct_sizes ::
  "'src FaultGeometry \<Rightarrow> 'tgt list \<Rightarrow> 'r list \<Rightarrow> nat \<Rightarrow> int \<Rightarrow> int \<times> int \<times> int \<times> int \<times> int" where
  "construct_sizes fault tgts risetimes nstarttimes n_samples =
     (int (length tgts), nsubfaults fault, int (length risetimes), int nstarttimes, n_samples)"

text \<open>
  The body of the loop over \<^verbatim>\<open>varnames\<close>, lines 685 to 687, for one slip component:
  the arguments of the constructor call are evaluated first, among them the name
  \<^verbatim>\<open>event\<close>, which is no parameter, is assigned nowhere in the function and is looked
  up at module level; then the library is created and sized. The statements after line
  687 are not modelled: the call that opens at line 722 is never closed, so the module
  does not parse from there on.
\<close>

definition construct_library ::
  "'src FaultGeometry \<Rightarrow> 'tgt list \<Rightarrow> 'stn list \<Rightarrow> 'r list \<Rightarrow> nat \<Rightarrow> int \<Rightarrow> string \<Rightarrow>
     error + ('tgt, 'stn) SeismicGFLibrary" where
  "construct_library fault tgts stns risetimes nstarttimes n_samples var =
     and_then (global_name ''event'')
       (\<lambda>_. and_then (SeismicGFLibrary_init (Some var) tgts stns)
          (\<lambda>gfs. case construct_sizes fault tgts risetimes nstarttimes n_samples of
                    (n0, n1, n2, n3, n4) \<Rightarrow> setup_library gfs n0 n1 n2 n3 n4))"

text \<open>
  The loop \<^verbatim>\<open>for var in varnames\<close> and, after it, the statement \<^verbatim>\<open>if saveflag:\<close> of
  line 734, which reads the name \<^verbatim>\<open>saveflag\<close>, again bound nowhere.
\<close>

fun construct_loop ::
  "'src FaultGeometry \<Rightarrow> 'tgt list \<Rightarrow> 'stn list \<Rightarrow> 'r list \<Rightarrow> nat \<Rightarrow> int \<Rightarrow> string list \<Rightarrow>
     error + ('tgt, 'stn) SeismicGFLibrary list" where
  "construct_loop fault tgts stns risetimes nstarttimes n_samples [] = Inr []"
| "construct_loop fault tgts stns risetimes nstarttimes n_samples (var # rest) =
     (case construct_library fault tgts stns risetimes nstarttimes n_samples var of
        Inl e \<Rightarrow> Inl e
      | Inr gfs \<Rightarrow>
          (case construct_loop fault tgts stns risetimes nstarttimes n_samples rest of
             Inl e \<Rightarrow> Inl e
           | Inr libs \<Rightarrow> Inr (gfs # libs)))"

definition seis_construct_gf_linear ::
  "'src FaultGeometry \<Rightarrow> 'tgt list \<Rightarrow> 'stn list \<Rightarrow> 'r list \<Rightarrow> nat \<Rightarrow> int \<Rightarrow> string list \<Rightarrow>
     error + ('tgt, 'stn) SeismicGFLibrary list" where
  "seis_construct_gf_linear fault tgts stns risetimes nstarttimes n_samples varnames =
     (case construct_loop fault tgts stns risetimes nstarttimes n_samples varnames of
        Inl e \<Rightarrow> Inl e
      | Inr libs \<Rightarrow> and_then (global_name ''saveflag'') (\<lambda>_. Inr libs))"

section \<open>Example objects\<close>

text \<open>
  A library with two targets and two stations, as \<^verbatim>\<open>__init__\<close> leaves it; after
  \<^verbatim>\<open>setup(2, 3, 2, 4, 2)\<close>; after \<^verbatim>\<open>put\<close> of the one-row batch \<open>[[5, 7]]\<close> at target
  \<open>''t0''\<close>, patch 2, rise time 1, start time 3; and after \<^verbatim>\<open>init_optimization()\<close>.
  The lemma \<open>example_states\<close> below shows that the modelled methods produce these
  states one from the other.
\<close>

definition example_library :: "(string, string) SeismicGFLibrary" where
  "example_library =
     \<lparr>slip_component = ''Uparr'', targets = [''t0'', ''t1''], stations = [''s0'', ''s1''],
      patchidxs = None, gfmatrix = None, sgfmatrix = None, stack_switch = None,
      mode = ''numpy'', target2index = None, heap = (\<lambda>_. zeros5 0 0 0 0 0), nalloc = 0\<rparr>"

definition example_sized :: "(string, string) SeismicGFLibrary" where
  "example_sized =
     example_library
       \<lparr>heap := (heap example_library)(0 := zeros5 2 3 2 4 2), nalloc := 1,
        gfmatrix := Some 0, patchidxs := Some (arange_int16 3)\<rparr>"

definition example_filled :: "(string, string) SeismicGFLibrary" where
  "example_filled =
     example_sized
       \<lparr>target2index := Some (target_dict [''t0'', ''t1'']),
        heap := (heap example_sized)(0 := write_row (zeros5 2 3 2 4 2) (0, 2, 1, 3) [5, 7])\<rparr>"

definition example_optimized :: "(string, string) SeismicGFLibrary" where
  "example_optimized =
     example_filled
       \<lparr>heap := (heap example_filled)(1 := heap example_filled 0), nalloc := 2,
        sgfmatrix := Some 1, stack_switch := Some [(''numpy'', 0), (''theano'', 1)],
        mode := ''theano''\<rparr>"

text \<open>
  A library with one target and 32769 patches, one rise time, one start time and one
  sample, after \<^verbatim>\<open>setup(1, 32769, 1, 1, 1)\<close>, the \<^verbatim>\<open>put\<close> of the batch \<open>[[1]]\<close> at
  patch 1, and \<^verbatim>\<open>init_optimization()\<close> (lemma \<open>wide_library_state\<close> below).
\<close>

definition wide_library :: "(string, string) SeismicGFLibrary" where
  "wide_library =
     \<lparr>slip_component = ''Uparr'', targets = [''t0''], stations = [''s0''],
      patchidxs = Some (arange_int16 32769), gfmatrix = Some 0, sgfmatrix = Some 1,
      stack_switch = Some [(''numpy'', 0), (''theano'', 1)], mode = ''theano'',
      target2index = Some (target_dict [''t0'']),
      heap = (\<lambda>_. zeros5 0 0 0 0 0)
        (0 := write_row (zeros5 1 32769 1 1 1) (0, 1, 0, 0) [1],
         1 := write_row (zeros5 1 32769 1 1 1) (0, 1, 0, 0) [1]),
      nalloc = 2\<rparr>"

text \<open>
  A fault geometry with one subfault of 2 patches along strike and 3 along dip, its
  source (the number 7 stands for the object) registered for \<open>''seismic''\<close> and
  \<open>''Uparr''\<close>; and a stand-in for the external method \<^verbatim>\<open>patches(nl, nw, datatype)\<close>
  that returns \<open>nl * nw\<close> patches, numbered.
\<close>

definition example_fault :: "nat FaultGeometry" where
  "example_fault =
     \<lparr>fg_datatypes = [''seismic''], fg_components = [''Uparr''],
      ext_sources = [''seismic_Uparr_0'' \<mapsto> 7], ordering = FaultOrdering_init [2] [3]\<rparr>"

definition grid_patches :: "nat \<Rightarrow> int \<Rightarrow> int \<Rightarrow> string option \<Rightarrow> (nat \<times> nat) list" where
  "grid_patches src nl nw dt = map (\<lambda>i. (src, i)) [0 ..< nat (nl * nw)]"

section \<open>Properties of the fault ordering\<close>

lemma ordering_loop_eq:
  "ordering_loop zs vm dm cnt =
     (vm @ patch_maps zs dm cnt, dm + sum_list (map (\<lambda>(npl, npw). npl * npw) zs))"
  by (induction zs vm dm cnt rule: ordering_loop.induct) (simp_all add: Let_def)

lemma vmap_init:
  "vmap (FaultOrdering_init npls npws) = patch_maps (zip npls npws) 0 0"
  by (simp add: FaultOrdering_init_def ordering_loop_eq)

lemma fo_npatches_init:
  "fo_npatches (FaultOrdering_init npls npws) =
     sum_list (map (\<lambda>(npl, npw). npl * npw) (zip npls npws))"
  by (simp add: FaultOrdering_init_def ordering_loop_eq)

lemma length_patch_maps: "length (patch_maps zs dm cnt) = length zs"
  by (induction zs dm cnt rule: patch_maps.induct) simp_all

lemma sum_npatches_patch_maps:
  "sum_list (map npatches (patch_maps zs dm cnt)) = sum_list (map (\<lambda>(npl, npw). npl * npw) zs)"
  by (induction zs dm cnt rule: patch_maps.induct) simp_all

lemma patch_maps_nth:
  "i < length zs \<Longrightarrow>
     patch_maps zs dm cnt ! i =
       PatchMap (cnt + int i)
         (dm + sum_list (map (\<lambda>(npl, npw). npl * npw) (take i zs)),
          dm + sum_list (map (\<lambda>(npl, npw). npl * npw) (take (Suc i) zs)))
         (snd (zs ! i), fst (zs ! i))
         (fst (zs ! i) * snd (zs ! i))"
proof (induction zs dm cnt arbitrary: i rule: patch_maps.induct)
  case (1 dm cnt)
  then show ?case by simp
next
  case (2 npl npw rest dm cnt)
  show ?case
  proof (cases i)
    case 0
    then show ?thesis by simp
  next
    case (Suc j)
    with "2.prems" have "j < length rest" by simp
    from "2.IH" [OF this] Suc show ?thesis by (simp add: algebra_simps)
  qed
qed

lemma slice_indices_inside:
  "0 \<le> a \<Longrightarrow> a \<le> b \<Longrightarrow> b \<le> n \<Longrightarrow> slice_indices n (a, b) = [a .. b - 1]"
  by (simp add: slice_indices_def slice_bound_def)

lemma upto_append_next:
  fixes a b c :: int
  assumes "a \<le> b" "b \<le> c"
  shows "[a .. b - 1] @ [b .. c - 1] = [a .. c - 1]"
proof (cases "b = c")
  case True
  then show ?thesis by simp
next
  case False
  with assms have "a \<le> b" "b \<le> c - 1" by simp_all
  from upto_split1 [OF this] show ?thesis by simp
qed

lemma concat_slices_patch_maps:
  assumes "\<forall>(npl, npw) \<in> set zs. 0 \<le> npl * npw" "0 \<le> dm"
    and "dm + sum_list (map (\<lambda>(npl, npw). npl * npw) zs) \<le> n"
  shows "concat (map (\<lambda>pm. slice_indices n (slc pm)) (patch_maps zs dm cnt)) =
           [dm .. dm + sum_list (map (\<lambda>(npl, npw). npl * npw) zs) - 1]"
  using assms
proof (induction zs dm cnt rule: patch_maps.induct)
  case (1 dm cnt)
  then show ?case by simp
next
  case (2 npl npw rest dm cnt)
  let ?p = "npl * npw"
  let ?s = "sum_list (map (\<lambda>(npl, npw). npl * npw) rest)"
  from "2.prems" have p: "0 \<le> ?p" and r: "\<forall>(npl, npw) \<in> set rest. 0 \<le> npl * npw" by auto
  have s: "0 \<le> ?s" using r by (induction rest) auto
  have hd: "slice_indices n (dm, dm + ?p) = [dm .. dm + ?p - 1]"
    using "2.prems" p s by (intro slice_indices_inside) auto
  have tl: "concat (map (\<lambda>pm. slice_indices n (slc pm)) (patch_maps rest (dm + ?p) (cnt + 1))) =
              [dm + ?p .. dm + ?p + ?s - 1]"
    using "2.prems" p r by (intro "2.IH") (auto simp: add.assoc)
  have "[dm .. dm + ?p - 1] @ [dm + ?p .. dm + ?p + ?s - 1] = [dm .. dm + ?p + ?s - 1]"
    using p s by (intro upto_append_next) auto
  with hd tl show ?case by (simp add: add.assoc)
qed

lemma zip_products_nonneg:
  assumes "list_all (\<lambda>n. (0::int) \<le> n) npls" "list_all (\<lambda>n. (0::int) \<le> n) npws"
  shows "\<forall>(npl, npw) \<in> set (zip npls npws). 0 \<le> npl * npw"
proof (clarify)
  fix npl npw
  assume "(npl, npw) \<in> set (zip npls npws)"
  then have "npl \<in> set npls" and "npw \<in> set npws"
    by (auto dest: set_zip_leftD set_zip_rightD)
  with assms show "0 \<le> npl * npw" by (simp add: list_all_iff)
qed

lemma get_patch_indexes_in_range:
  "i < length (vmap (ordering fg)) \<Longrightarrow>
     get_patch_indexes fg (int i) = Inr (slc (vmap (ordering fg) ! i))"
  by (simp add: get_patch_indexes_def check_index_def nsubfaults_def py_index_def)

lemma take_patch_maps: "take i (patch_maps zs dm cnt) = patch_maps (take i zs) dm cnt"
proof (induction zs dm cnt arbitrary: i rule: patch_maps.induct)
  case (1 dm cnt)
  then show ?case by simp
next
  case (2 npl npw rest dm cnt)
  then show ?case by (cases i) simp_all
qed

text \<open>
  Claim C3. For count lists without negative entries, the ordering built from them (held
  by any geometry \<open>fg\<close>) has one patch map per pair of counts; subfault \<open>i\<close> has the patch
  count \<open>npls ! i * npws ! i\<close>; \<^verbatim>\<open>get_patch_indexes\<close> returns its slice, which starts
  where the patch counts of the subfaults before it end and is as long as its patch count;
  the index ranges of the slices, concatenated in subfault order, are exactly
  \<open>0, 1, \<dots>, total - 1\<close>, each index once; and the patch counts add up to the total the
  ordering exposes.
\<close>

theorem fault_ordering_partition:
  assumes "list_all (\<lambda>n. 0 \<le> n) npls" and "list_all (\<lambda>n. 0 \<le> n) npws"
    and "ordering fg = FaultOrdering_init npls npws"
  shows "length (vmap (ordering fg)) = min (length npls) (length npws) \<and>
         (\<forall>i < length (vmap (ordering fg)).
            npatches (vmap (ordering fg) ! i) = npls ! i * npws ! i \<and>
            get_patch_indexes fg (int i) = Inr (slc (vmap (ordering fg) ! i)) \<and>
            fst (slc (vmap (ordering fg) ! i)) =
              sum_list (map npatches (take i (vmap (ordering fg)))) \<and>
            snd (slc (vmap (ordering fg) ! i)) =
              fst (slc (vmap (ordering fg) ! i)) + npatches (vmap (ordering fg) ! i)) \<and>
         concat (map (\<lambda>pm. slice_indices (nsubpatches fg) (slc pm)) (vmap (ordering fg))) =
           [0 .. nsubpatches fg - 1] \<and>
         sum_list (map npatches (vmap (ordering fg))) = nsubpatches fg"
proof -
  let ?zs = "zip npls npws"
  let ?vm = "vmap (ordering fg)"
  let ?prod = "\<lambda>(npl, npw). npl * npw :: int"
  have vm: "?vm = patch_maps ?zs 0 0"
    using assms(3) by (simp add: vmap_init)
  have total: "nsubpatches fg = sum_list (map ?prod ?zs)"
    using assms(3) by (simp add: nsubpatches_def fo_npatches_init)
  have len: "length ?vm = min (length npls) (length npws)"
    by (simp add: vm length_patch_maps)
  have nonneg: "\<forall>(npl, npw) \<in> set ?zs. 0 \<le> npl * npw"
    using assms(1,2) by (rule zip_products_nonneg)
  have each: "npatches (?vm ! i) = npls ! i * npws ! i \<and>
      get_patch_indexes fg (int i) = Inr (slc (?vm ! i)) \<and>
      fst (slc (?vm ! i)) = sum_list (map npatches (take i ?vm)) \<and>
      snd (slc (?vm ! i)) = fst (slc (?vm ! i)) + npatches (?vm ! i)"
    if "i < length ?vm" for i
  proof -
    from that len have i: "i < length ?zs" by simp
    have "take i ?vm = patch_maps (take i ?zs) 0 0"
      by (simp add: vm take_patch_maps)
    then have "sum_list (map npatches (take i ?vm)) = sum_list (map ?prod (take i ?zs))"
      by (simp add: sum_npatches_patch_maps)
    moreover have "sum_list (map ?prod (take (Suc i) ?zs)) =
        sum_list (map ?prod (take i ?zs)) + npls ! i * npws ! i"
      using i by (simp add: take_Suc_conv_app_nth)
    ultimately show ?thesis
      using i that by (simp add: vm patch_maps_nth get_patch_indexes_in_range)
  qed
  have part: "concat (map (\<lambda>pm. slice_indices (nsubpatches fg) (slc pm)) ?vm) =
      [0 .. nsubpatches fg - 1]"
    using concat_slices_patch_maps [OF nonneg, of 0 "nsubpatches fg" 0]
    by (simp add: vm total)
  have "sum_list (map npatches ?vm) = nsubpatches fg"
    by (simp add: vm total sum_npatches_patch_maps)
  with len each part show ?thesis by blast
qed

theorem fault_ordering_partition_witness:
  "list_all (\<lambda>n. (0::int) \<le> n) [2, 3] \<and> list_all (\<lambda>n. (0::int) \<le> n) [3, 4] \<and>
   vmap (FaultOrdering_init [2, 3] [3, 4]) = [PatchMap 0 (0, 6) (3, 2) 6, PatchMap 1 (6, 18) (4, 3) 12] \<and>
   get_patch_indexes (FaultGeometry_init [''geodetic''] [''Uparr''] (FaultOrdering_init [2, 3] [3, 4]) :: unit FaultGeometry) 1 = Inr (6, 18) \<and>
   concat (map (\<lambda>pm. slice_indices 18 (slc pm)) (vmap (FaultOrdering_init [2, 3] [3, 4]))) = [0 .. 17] \<and>
   sum_list (map npatches (vmap (FaultOrdering_init [2, 3] [3, 4]))) = 18"
proof -
  let ?fg = "FaultGeometry_init [''geodetic''] [''Uparr''] (FaultOrdering_init [2, 3] [3, 4]) :: unit FaultGeometry"
  have o: "ordering ?fg = FaultOrdering_init [2, 3] [3, 4]"
    by (simp add: FaultGeometry_init_def)
  have v: "vmap (FaultOrdering_init [2, 3] [3, 4]) = [PatchMap 0 (0, 6) (3, 2) 6, PatchMap 1 (6, 18) (4, 3) 12]"
    by (simp add: FaultOrdering_init_def)
  have n: "nsubpatches ?fg = 18"
    by (simp add: nsubpatches_def FaultGeometry_init_def FaultOrdering_init_def)
  have h1: "list_all (\<lambda>n. (0::int) \<le> n) [2, 3]" and h2: "list_all (\<lambda>n. (0::int) \<le> n) [3, 4]"
    by simp_all
  have g: "get_patch_indexes ?fg 1 = Inr (6, 18)"
    by (simp add: get_patch_indexes_def check_index_def nsubfaults_def py_index_def o v)
  from fault_ordering_partition [OF h1 h2 o] have
    "concat (map (\<lambda>pm. slice_indices (nsubpatches ?fg) (slc pm)) (vmap (ordering ?fg))) =
       [0 .. nsubpatches ?fg - 1]"
    and "sum_list (map npatches (vmap (ordering ?fg))) = nsubpatches ?fg"
    by blast+
  with h1 h2 v g show ?thesis
    unfolding o n by simp
qed

text \<open>
  Claim C9, as amended. The constructor has no failing branch: for all lists, also empty
  ones and lists of different lengths, it returns an ordering with one patch map per
  position the two lists share. Subfault \<open>i\<close> gets the ordinal \<open>i\<close>, the patch count
  \<open>npls ! i * npws ! i\<close>, the shape \<open>(npws ! i, npls ! i)\<close> and the slice that starts at the
  sum of the patch counts before it; the total is the sum over the shared positions.
\<close>

theorem build_ordering_never_fails:
  "length (vmap (FaultOrdering_init npls npws)) = min (length npls) (length npws) \<and>
   (\<forall>i < min (length npls) (length npws).
      vmap (FaultOrdering_init npls npws) ! i =
        PatchMap (int i)
          ((\<Sum>j < i. npls ! j * npws ! j), (\<Sum>j < i. npls ! j * npws ! j) + npls ! i * npws ! i)
          (npws ! i, npls ! i)
          (npls ! i * npws ! i)) \<and>
   fo_npatches (FaultOrdering_init npls npws) =
     (\<Sum>j < min (length npls) (length npws). npls ! j * npws ! j)"
proof -
  let ?zs = "zip npls npws"
  let ?prod = "\<lambda>(npl, npw). npl * npw :: int"
  have sums: "sum_list (map ?prod (take i ?zs)) = (\<Sum>j < i. npls ! j * npws ! j)"
    if "i \<le> length ?zs" for i
  proof -
    have "sum_list (map ?prod (take i ?zs)) = (\<Sum>j = 0 ..< i. map ?prod (take i ?zs) ! j)"
      using that by (simp add: sum_list_sum_nth)
    also have "\<dots> = (\<Sum>j = 0 ..< i. npls ! j * npws ! j)"
      using that by (intro sum.cong) auto
    finally show ?thesis by (simp add: lessThan_atLeast0)
  qed
  have "vmap (FaultOrdering_init npls npws) ! i =
        PatchMap (int i)
          ((\<Sum>j < i. npls ! j * npws ! j), (\<Sum>j < i. npls ! j * npws ! j) + npls ! i * npws ! i)
          (npws ! i, npls ! i) (npls ! i * npws ! i)"
    if "i < min (length npls) (length npws)" for i
  proof -
    from that have i: "i < length ?zs" by simp
    then have "Suc i \<le> length ?zs" "i \<le> length ?zs" by simp_all
    from sums [OF this(1)] sums [OF this(2)] i show ?thesis
      by (simp add: vmap_init patch_maps_nth)
  qed
  moreover have "fo_npatches (FaultOrdering_init npls npws) =
     (\<Sum>j < min (length npls) (length npws). npls ! j * npws ! j)"
    using sums [of "length ?zs"] by (simp add: fo_npatches_init)
  ultimately show ?thesis
    by (simp add: vmap_init length_patch_maps)
qed

theorem build_ordering_never_fails_witness:
  "length (vmap (FaultOrdering_init [2, 3] [3, 4, 5])) = 2 \<and>
   vmap (FaultOrdering_init [2, 3] [3, 4, 5]) ! 1 = PatchMap 1 (6, 18) (4, 3) 12 \<and>
   fo_npatches (FaultOrdering_init [2, 3] [3, 4, 5]) = 18"
  using build_ordering_never_fails [of "[2, 3]" "[3, 4, 5]"]
  by (simp add: lessThan_Suc numeral_2_eq_2)

text \<open>
  Claim C9 as stated fails: two empty lists, an empty list beside a non-empty one, and
  lists of lengths 1 and 2 all build an ordering; the entries beyond the shorter list are
  ignored.
\<close>

theorem build_ordering_fails_counterexample:
  "FaultOrdering_init [] [] = \<lparr>vmap = [], fo_npatches = 0\<rparr> \<and>
   FaultOrdering_init [] [3] = \<lparr>vmap = [], fo_npatches = 0\<rparr> \<and>
   FaultOrdering_init [2] [3, 4] = \<lparr>vmap = [PatchMap 0 (0, 6) (3, 2) 6], fo_npatches = 6\<rparr>"
  by (simp add: FaultOrdering_init_def)

section \<open>Properties of the fault geometry lookups\<close>

lemma get_subfault_key_Inr:
  "get_subfault_key fg index datatype component = Inr key \<longleftrightarrow>
     (\<exists>dt c.
        (case datatype of
           Some d \<Rightarrow> dt = d \<and> d \<in> set (fg_datatypes fg)
         | None \<Rightarrow> fg_datatypes fg \<noteq> [] \<and> dt = fg_datatypes fg ! 0) \<and>
        (case component of
           Some d \<Rightarrow> c = d \<and> d \<in> set (fg_components fg)
         | None \<Rightarrow> fg_components fg \<noteq> [] \<and> c = fg_components fg ! 0) \<and>
        index \<le> nsubfaults fg - 1 \<and>
        key = dt @ ''_'' @ c @ ''_'' @ str_int index)"
  by (auto simp: get_subfault_key_def check_datatype_def check_component_def check_index_def
      py_index_def split: option.splits sum.splits if_splits)

lemma get_subfault_Inr:
  "get_subfault fg index datatype component = Inr s \<longleftrightarrow>
     (\<exists>key. get_subfault_key fg index datatype component = Inr key \<and>
            ext_sources fg key = Some s)"
  by (auto simp: get_subfault_def split: sum.splits option.splits)

lemma all_patches_loop_Inr:
  "all_patches_loop fg patches datatype component idxs acc = Inr ps \<longleftrightarrow>
     (\<exists>pss. list_all2 (\<lambda>i p. get_subfault_patches fg patches i datatype component = Inr p) idxs pss \<and>
            ps = acc @ concat pss)"
proof (induction idxs arbitrary: acc)
  case Nil
  then show ?case by auto
next
  case (Cons i rest)
  show ?case
  proof (cases "get_subfault_patches fg patches i datatype component")
    case (Inl e)
    then show ?thesis by (auto simp: list_all2_Cons1)
  next
    case (Inr p)
    then show ?thesis by (auto simp: Cons.IH list_all2_Cons1)
  qed
qed

lemma get_subfault_patches_in_range:
  assumes "i < length (vmap (ordering fg))"
  shows "get_subfault_patches fg patches (int i) datatype component = Inr p \<longleftrightarrow>
     (\<exists>s. get_subfault fg (int i) datatype component = Inr s \<and>
          p = patches s (snd (shp (vmap (ordering fg) ! i))) (fst (shp (vmap (ordering fg) ! i))) datatype)"
  using assms
  by (auto simp: get_subfault_patches_def check_index_def nsubfaults_def py_index_def
      split: sum.splits prod.splits)

lemma list_all2_patches:
  assumes "set is \<subseteq> {..< length (vmap (ordering fg))}"
  shows "list_all2 (\<lambda>i p. get_subfault_patches fg patches (int i) datatype component = Inr p) is pss \<longleftrightarrow>
    (\<exists>srcs. list_all2 (\<lambda>i s. get_subfault fg (int i) datatype component = Inr s) is srcs \<and>
       pss = map (\<lambda>(i, s). patches s (snd (shp (vmap (ordering fg) ! i))) (fst (shp (vmap (ordering fg) ! i))) datatype) (zip is srcs))"
  using assms
proof (induction "is" arbitrary: pss)
  case Nil
  then show ?case by auto
next
  case (Cons i rest)
  then have i: "i < length (vmap (ordering fg))" and r: "set rest \<subseteq> {..< length (vmap (ordering fg))}"
    by auto
  show ?case
    unfolding list_all2_Cons1 Cons.IH [OF r] get_subfault_patches_in_range [OF i]
    by fastforce
qed

text \<open>
  What the lookups compute, for every geometry. \<^verbatim>\<open>get_subfault\<close> succeeds exactly
  when the datatype and component (the first declared ones when not given) are
  declared, the index does not exceed \<open>nsubfaults - 1\<close>, and the key string built from
  the three is a key of \<^verbatim>\<open>_ext_sources\<close>. \<^verbatim>\<open>get_all_patches\<close> succeeds exactly when
  \<^verbatim>\<open>get_subfault\<close> succeeds for every subfault \<open>0 \<le> i < nsubfaults\<close>, and then returns
  the patches of these subfaults in ordering order. An index above \<open>nsubfaults - 1\<close>
  makes the three lookups fail, and for \<open>0 \<le> index < nsubfaults\<close>
  \<^verbatim>\<open>get_patch_indexes\<close> returns the slice of that subfault.
\<close>

lemma geometry_lookups:
  "(get_subfault fg index datatype component = Inr s \<longleftrightarrow>
      (\<exists>dt c.
         (case datatype of
            Some d \<Rightarrow> dt = d \<and> d \<in> set (fg_datatypes fg)
          | None \<Rightarrow> fg_datatypes fg \<noteq> [] \<and> dt = fg_datatypes fg ! 0) \<and>
         (case component of
            Some d \<Rightarrow> c = d \<and> d \<in> set (fg_components fg)
          | None \<Rightarrow> fg_components fg \<noteq> [] \<and> c = fg_components fg ! 0) \<and>
         index \<le> nsubfaults fg - 1 \<and>
         ext_sources fg (dt @ ''_'' @ c @ ''_'' @ str_int index) = Some s)) \<and>
   (get_all_patches fg patches datatype component = Inr ps \<longleftrightarrow>
      (\<exists>srcs.
         list_all2 (\<lambda>i src. get_subfault fg (int i) datatype component = Inr src)
           [0 ..< length (vmap (ordering fg))] srcs \<and>
         ps = concat (map (\<lambda>(i, src). patches src (snd (shp (vmap (ordering fg) ! i)))
                                        (fst (shp (vmap (ordering fg) ! i))) datatype)
                        (zip [0 ..< length (vmap (ordering fg))] srcs)))) \<and>
   (nsubfaults fg - 1 < index \<longrightarrow>
      get_patch_indexes fg index = Inl TypeError \<and>
      isl (get_subfault fg index datatype component) \<and>
      isl (get_subfault_patches fg patches index datatype component)) \<and>
   (0 \<le> index \<and> index < nsubfaults fg \<longrightarrow>
      get_patch_indexes fg index = Inr (slc (vmap (ordering fg) ! nat index)))"
proof (intro conjI impI)
  show "get_subfault fg index datatype component = Inr s \<longleftrightarrow>
      (\<exists>dt c.
         (case datatype of
            Some d \<Rightarrow> dt = d \<and> d \<in> set (fg_datatypes fg)
          | None \<Rightarrow> fg_datatypes fg \<noteq> [] \<and> dt = fg_datatypes fg ! 0) \<and>
         (case component of
            Some d \<Rightarrow> c = d \<and> d \<in> set (fg_components fg)
          | None \<Rightarrow> fg_components fg \<noteq> [] \<and> c = fg_components fg ! 0) \<and>
         index \<le> nsubfaults fg - 1 \<and>
         ext_sources fg (dt @ ''_'' @ c @ ''_'' @ str_int index) = Some s)"
    unfolding get_subfault_Inr get_subfault_key_Inr by blast
next
  let ?n = "length (vmap (ordering fg))"
  have sub: "set [0 ..< ?n] \<subseteq> {..< ?n}" by auto
  have "get_all_patches fg patches datatype component = Inr ps \<longleftrightarrow>
      (\<exists>pss. list_all2 (\<lambda>i p. get_subfault_patches fg patches (int i) datatype component = Inr p)
                [0 ..< ?n] pss \<and> ps = concat pss)"
    by (simp add: get_all_patches_def all_patches_loop_Inr list_all2_map1)
  then show "get_all_patches fg patches datatype component = Inr ps \<longleftrightarrow>
      (\<exists>srcs.
         list_all2 (\<lambda>i src. get_subfault fg (int i) datatype component = Inr src) [0 ..< ?n] srcs \<and>
         ps = concat (map (\<lambda>(i, src). patches src (snd (shp (vmap (ordering fg) ! i)))
                                        (fst (shp (vmap (ordering fg) ! i))) datatype)
                        (zip [0 ..< ?n] srcs)))"
    unfolding list_all2_patches [OF sub] by blast
next
  assume "nsubfaults fg - 1 < index"
  then show "get_patch_indexes fg index = Inl TypeError"
    by (simp add: get_patch_indexes_def check_index_def)
next
  assume "nsubfaults fg - 1 < index"
  then show "isl (get_subfault fg index datatype component)"
    by (auto simp: get_subfault_def get_subfault_key_def check_index_def
        split: sum.splits option.splits)
next
  assume "nsubfaults fg - 1 < index"
  then show "isl (get_subfault_patches fg patches index datatype component)"
    by (simp add: get_subfault_patches_def check_index_def)
next
  assume "0 \<le> index \<and> index < nsubfaults fg"
  then show "get_patch_indexes fg index = Inr (slc (vmap (ordering fg) ! nat index))"
    by (simp add: get_patch_indexes_def check_index_def nsubfaults_def py_index_def)
qed

text \<open>
  Claim C8, the code at the failing inputs. (1) The key is the concatenation
  \<^verbatim>\<open>datatype + '_' + component + '_' + str(index)\<close>: after registering only the pair
  \<open>(''a_b'', ''c'')\<close>, the lookup of the pair \<open>(''a'', ''b_c'')\<close>, which was never
  registered, builds the same key \<open>''a_b_c_0''\<close> and returns the source of the other
  pair. (2) On a geometry without subfaults \<^verbatim>\<open>get_all_patches\<close> returns the empty
  list for a pair that is neither declared nor registered, where \<^verbatim>\<open>setup_subfaults\<close>
  checks the pair first and fails. (3) \<^verbatim>\<open>_check_index\<close> tests the upper bound only:
  \<^verbatim>\<open>get_patch_indexes(-1)\<close> returns the slice of the last subfault for an index that
  is no subfault index, where \<^verbatim>\<open>get_subfault\<close> fails for it.
\<close>

theorem lookups_of_unregistered_keys:
  "setup_subfaults
     (FaultGeometry_init [''a_b'', ''a''] [''c'', ''b_c''] (FaultOrdering_init [2] [3]))
     ''a_b'' ''c'' [7 :: nat] False =
     Inr \<lparr>fg_datatypes = [''a_b'', ''a''], fg_components = [''c'', ''b_c''],
          ext_sources = [''a_b_c_0'' \<mapsto> 7], ordering = FaultOrdering_init [2] [3]\<rparr> \<and>
   get_subfault
     \<lparr>fg_datatypes = [''a_b'', ''a''], fg_components = [''c'', ''b_c''],
      ext_sources = [''a_b_c_0'' \<mapsto> 7 :: nat], ordering = FaultOrdering_init [2] [3]\<rparr>
     0 (Some ''a'') (Some ''b_c'') = Inr 7 \<and>
   get_all_patches
     (FaultGeometry_init [''seismic''] [''Uparr''] (FaultOrdering_init [] []) :: nat FaultGeometry)
     grid_patches (Some ''bogus'') (Some ''bogus'') = Inr [] \<and>
   setup_subfaults
     (FaultGeometry_init [''seismic''] [''Uparr''] (FaultOrdering_init [] []) :: nat FaultGeometry)
     ''bogus'' ''bogus'' [] False = Inl TypeError \<and>
   get_patch_indexes example_fault (- 1) = Inr (0, 6) \<and>
   get_subfault example_fault (- 1) (Some ''seismic'') (Some ''Uparr'') = Inl FaultGeometryError"
  by (simp add: get_all_patches_def FaultGeometry_init_def FaultOrdering_init_def
      setup_subfaults_def check_datatype_def check_component_def nsubfaults_def
      get_subfault_key_def check_index_def str_int_def get_subfault_def
      get_patch_indexes_def py_index_def example_fault_def)

section \<open>Properties of the Green's function library\<close>

lemma length_concat_uniform:
  "\<forall>r \<in> set rows. length r = c \<Longrightarrow> length (concat rows) = length rows * c"
  by (induction rows) simp_all

lemma take_drop_concat_uniform:
  "\<forall>r \<in> set rows. length r = c \<Longrightarrow> j < length rows \<Longrightarrow>
     take c (drop (j * c) (concat rows)) = rows ! j"
proof (induction rows arbitrary: j)
  case Nil
  then show ?case by simp
next
  case (Cons r rows)
  then show ?case by (cases j) simp_all
qed

lemma reshape2_id:
  assumes "\<forall>r \<in> set rows. length r = c" "length rows = m"
  shows "reshape2 m c rows = Inr rows"
proof -
  have "map (\<lambda>j. take c (drop (j * c) (concat rows))) [0 ..< m] = map ((!) rows) [0 ..< m]"
    using assms by (intro map_cong) (simp_all add: take_drop_concat_uniform)
  also have "\<dots> = rows" using assms(2) map_nth [of rows] by simp
  finally have "map (\<lambda>j. take c (drop (j * c) (concat rows))) [0 ..< m] = rows" .
  moreover have "length (concat rows) = m * c"
    using length_concat_uniform [OF assms(1)] assms(2) by simp
  ultimately show ?thesis
    unfolding reshape2_def by simp
qed

lemma length_read_row [simp]: "length (read_row a c) = sh4 a"
  by (simp add: read_row_def)

lemma read_row_write_row_same:
  "length row = sh4 a \<Longrightarrow> read_row (write_row a c row) c = row"
  by (auto simp: read_row_def write_row_def intro: nth_equalityI)

lemma read_row_write_row_other:
  "c' \<noteq> c \<Longrightarrow> read_row (write_row a c row) c' = read_row a c'"
  by (simp add: read_row_def write_row_def)

lemma shape_write_row [simp]:
  "sh0 (write_row a c row) = sh0 a" "sh1 (write_row a c row) = sh1 a"
  "sh2 (write_row a c row) = sh2 a" "sh3 (write_row a c row) = sh3 a"
  "sh4 (write_row a c row) = sh4 a"
  by (simp_all add: write_row_def)

lemma fancy_coords_single:
  "fancy_coords a tidx [p] [r] [s] =
     (if valid_index (sh0 a) tidx \<and> valid_index (sh1 a) p \<and> valid_index (sh2 a) r \<and>
         valid_index (sh3 a) s
      then Inr [(norm_index (sh0 a) tidx, norm_index (sh1 a) p, norm_index (sh2 a) r,
                 norm_index (sh3 a) s)]
      else Inl IndexError)"
  by (simp add: fancy_coords_def fancy_triples_def broadcast3_def broadcast2_def bget_def)

lemma dot_T_single: "length row = c \<Longrightarrow> dot_T c [row] [1] = row"
  by (auto simp: dot_T_def intro: nth_equalityI)

lemma target_index_mapping_snd:
  "snd (target_index_mapping L) = L\<lparr>target2index := Some (fst (target_index_mapping L))\<rparr>"
  by (cases "target2index L") (simp_all add: target_index_mapping_def)

lemma target_index_mapping_cached:
  "target2index L = Some m \<Longrightarrow> target_index_mapping L = (m, L)"
  by (simp add: target_index_mapping_def)

lemma put_Arr2:
  "put L (Arr2 ncols rows) tg p rs ss =
     (case gfmatrix L of
        None \<Rightarrow> Inl GFLibraryError
      | Some a \<Rightarrow>
          if ncols \<noteq> sh4 (heap L a) then Inl GFLibraryError
          else
            (case fst (target_index_mapping L) tg of
               None \<Rightarrow> Inl KeyError
             | Some tidx \<Rightarrow>
                 (case assign_rows (heap L a) (int tidx) p rs ss ncols rows of
                    Inl e \<Rightarrow> Inl e
                  | Inr b \<Rightarrow>
                      Inr (L\<lparr>target2index := Some (fst (target_index_mapping L)),
                             heap := (heap L)(a := b)\<rparr>))))"
proof (cases "target2index L")
  case None
  then show ?thesis
    by (simp add: put_def lib_nsamples_def shape_property_def check_setup_def
        target_index_mapping_def split: option.splits sum.splits)
next
  case (Some m)
  then have "L\<lparr>target2index := Some m, heap := h\<rparr> = L\<lparr>heap := h\<rparr>" for h
    by simp
  with Some show ?thesis
    by (simp add: put_def lib_nsamples_def shape_property_def check_setup_def
        target_index_mapping_def split: option.splits sum.splits)
qed

lemma roundtrip_numpy:
  assumes sw: "stack_switch L = Some sw" and act: "map_of sw (mode L) = gfmatrix L"
    and put: "put L (Arr2 (length row) [row]) tg p [r] [s] = Inr L'"
  shows "map_sum id fst (stack L' tg [p] [r] [s] [1]) = Inr row"
proof -
  let ?m = "fst (target_index_mapping L)"
  from put obtain a where a: "gfmatrix L = Some a"
    by (cases "gfmatrix L") (simp_all add: put_Arr2)
  let ?A = "heap L a"
  from put a have n: "length row = sh4 ?A"
    by (simp add: put_Arr2 split: if_splits)
  from put a n obtain tidx where t: "?m tg = Some tidx"
    by (cases "?m tg") (simp_all add: put_Arr2)
  from put a n t obtain b where
    b: "assign_rows ?A (int tidx) p [r] [s] (length row) [row] = Inr b"
    and L': "L' = L\<lparr>target2index := Some ?m, heap := (heap L)(a := b)\<rparr>"
    by (cases "assign_rows ?A (int tidx) p [r] [s] (length row) [row]")
      (simp_all add: put_Arr2)
  let ?c = "(norm_index (sh0 ?A) (int tidx), norm_index (sh1 ?A) p, norm_index (sh2 ?A) r,
             norm_index (sh3 ?A) s)"
  from b have valid: "valid_index (sh0 ?A) (int tidx) \<and> valid_index (sh1 ?A) p \<and>
      valid_index (sh2 ?A) r \<and> valid_index (sh3 ?A) s"
    by (simp add: assign_rows_def fancy_coords_single split: if_splits)
  with b have bw: "b = write_row ?A ?c row"
    by (simp add: assign_rows_def fancy_coords_single bget_def split: if_splits)
  have v': "fancy_coords b (int tidx) [p] [r] [s] = Inr [?c]"
    using valid by (simp add: fancy_coords_single bw)
  have rd: "read_row b ?c = row"
    using n by (simp add: bw read_row_write_row_same)
  have tim: "target_index_mapping L' = (?m, L')"
    by (rule target_index_mapping_cached) (simp add: L')
  have ns: "lib_nsamples L' = Inr (length row)"
    by (simp add: lib_nsamples_def shape_property_def L' a bw n)
  have rs: "reshape2 (Suc 0) (length row) [row] = Inr [row]"
    by (rule reshape2_id) simp_all
  have "stack L' tg [p] [r] [s] [1] = Inr (row, L')"
    unfolding stack_def tim
    using t sw act a v' rd ns rs by (simp add: L' dot_T_single)
  then show ?thesis by simp
qed

lemma stack_unfold:
  "stack L tg ps rs ss slips =
     (case fst (target_index_mapping L) tg of
        None \<Rightarrow> Inl KeyError
      | Some tidx \<Rightarrow>
          (case stack_switch L of
             None \<Rightarrow> Inl AttributeError
           | Some sw \<Rightarrow>
               (case map_of sw (mode L) of
                  None \<Rightarrow> Inl KeyError
                | Some c \<Rightarrow>
                    (case fancy_coords (heap L c) (int tidx) ps rs ss of
                       Inl e \<Rightarrow> Inl e
                     | Inr cs \<Rightarrow>
                         (case lib_nsamples L of
                            Inl e \<Rightarrow> Inl e
                          | Inr ns \<Rightarrow>
                              (case reshape2 (length slips) ns (map (read_row (heap L c)) cs) of
                                 Inl e \<Rightarrow> Inl e
                               | Inr rows \<Rightarrow>
                                   Inr (dot_T ns rows slips,
                                        L\<lparr>target2index := Some (fst (target_index_mapping L))\<rparr>)))))))"
proof (cases "target2index L")
  case None
  then show ?thesis
    by (simp add: stack_def lib_nsamples_def shape_property_def target_index_mapping_def
        split: option.splits sum.splits)
next
  case (Some m)
  then have "L\<lparr>target2index := Some m\<rparr> = L" by simp
  with Some show ?thesis
    by (simp add: stack_def lib_nsamples_def shape_property_def target_index_mapping_def
        split: option.splits sum.splits)
qed

lemma init_optimization_Inr:
  assumes "init_optimization L = Inr L'"
  obtains a where "gfmatrix L = Some a"
    and "L' = L\<lparr>heap := (heap L)(nalloc L := heap L a), nalloc := nalloc L + 1,
                 sgfmatrix := Some (nalloc L),
                 stack_switch := Some [(''numpy'', a), (''theano'', nalloc L)],
                 mode := ''theano''\<rparr>"
  using assms
  by (cases "gfmatrix L") (auto simp: init_optimization_def set_stack_mode_def)

text \<open>
  Claim C7. \<^verbatim>\<open>_stack_switch\<close> either does not exist (before \<^verbatim>\<open>init_optimization\<close>) or
  has the keys \<open>''numpy''\<close> and \<open>''theano''\<close> (after it); in both cases \<^verbatim>\<open>set_stack_mode\<close>
  fails for every other name. And while \<^verbatim>\<open>_sgfmatrix\<close> is \<^verbatim>\<open>None\<close>, as it is until
  \<^verbatim>\<open>init_optimization\<close> assigns it (lemma \<open>sgfmatrix_only_set_by_init_optimization\<close>),
  \<^verbatim>\<open>stack_all\<close> fails with \<^verbatim>\<open>GFLibraryError\<close>.
\<close>

theorem stack_mode_errors:
  assumes "stack_switch L = None \<or> (\<exists>a b. stack_switch L = Some [(''numpy'', a), (''theano'', b)])"
  shows "(md \<noteq> ''numpy'' \<and> md \<noteq> ''theano'' \<longrightarrow> isl (set_stack_mode L md)) \<and>
         (sgfmatrix L = None \<longrightarrow> stack_all L rs ss slips = Inl GFLibraryError)"
  using assms by (auto simp: set_stack_mode_def stack_all_def)

lemma sgfmatrix_only_set_by_init_optimization:
  "SeismicGFLibrary_init c tgts stns = Inr L \<Longrightarrow> sgfmatrix L = None \<and> stack_switch L = None"
  "setup_library L n0 n1 n2 n3 n4 = Inr L' \<Longrightarrow>
     sgfmatrix L' = sgfmatrix L \<and> stack_switch L' = stack_switch L"
  "put L ents tg p rs ss = Inr L' \<Longrightarrow>
     sgfmatrix L' = sgfmatrix L \<and> stack_switch L' = stack_switch L"
  "set_stack_mode L md = Inr L' \<Longrightarrow>
     sgfmatrix L' = sgfmatrix L \<and> stack_switch L' = stack_switch L"
  "stack L tg ps rs ss slips = Inr (w, L') \<Longrightarrow>
     sgfmatrix L' = sgfmatrix L \<and> stack_switch L' = stack_switch L"
proof -
  show "SeismicGFLibrary_init c tgts stns = Inr L \<Longrightarrow> sgfmatrix L = None \<and> stack_switch L = None"
    by (auto simp: SeismicGFLibrary_init_def split: option.splits)
  show "setup_library L n0 n1 n2 n3 n4 = Inr L' \<Longrightarrow>
     sgfmatrix L' = sgfmatrix L \<and> stack_switch L' = stack_switch L"
    by (auto simp: setup_library_def split: if_splits)
  show "put L ents tg p rs ss = Inr L' \<Longrightarrow>
     sgfmatrix L' = sgfmatrix L \<and> stack_switch L' = stack_switch L"
  proof (cases ents)
    case (Arr1 xs)
    then show "put L ents tg p rs ss = Inr L' \<Longrightarrow> ?thesis" by (simp add: put_def)
  next
    case (Arr2 ncols rows)
    then show "put L ents tg p rs ss = Inr L' \<Longrightarrow> ?thesis"
      by (auto simp: put_Arr2 split: option.splits sum.splits if_splits)
  qed
  show "set_stack_mode L md = Inr L' \<Longrightarrow>
     sgfmatrix L' = sgfmatrix L \<and> stack_switch L' = stack_switch L"
    by (auto simp: set_stack_mode_def split: option.splits if_splits)
  show "stack L tg ps rs ss slips = Inr (w, L') \<Longrightarrow>
     sgfmatrix L' = sgfmatrix L \<and> stack_switch L' = stack_switch L"
    by (auto simp: stack_unfold split: option.splits sum.splits)
qed

lemma setup_library_zero:
  assumes "setup_library L n0 n1 n2 n3 n4 = Inr L'"
  shows "gfmatrix L' = Some (nalloc L) \<and>
         heap L' (nalloc L) = zeros5 (nat n0) (nat n1) (nat n2) (nat n3) (nat n4) \<and>
         read_row (heap L' (nalloc L)) c = replicate (nat n4) 0"
  using assms
  by (auto simp: setup_library_def read_row_def zeros5_def map_replicate_const split: if_splits)

lemmas lib_defs = SeismicGFLibrary_init_def setup_library_def nstations_def
  lib_nsamples_def lib_npatches_def lib_ntargets_def shape_property_def check_setup_def
  target_index_mapping_def target_dict_def enumerate_eq_zip
  assign_rows_def fancy_coords_def fancy_triples_def broadcast3_def broadcast2_def bget_def
  valid_index_def norm_index_def read_row_def write_row_def zeros5_def reshape2_def dot_T_def
  init_optimization_def set_stack_mode_def

lemmas example_defs = example_library_def example_sized_def example_filled_def
  example_optimized_def

lemma example_states:
  "SeismicGFLibrary_init (Some ''Uparr'') [''t0'', ''t1''] [''s0'', ''s1''] = Inr example_library"
  "setup_library example_library 2 3 2 4 2 = Inr example_sized"
  "put example_sized (Arr2 2 [[5, 7]]) ''t0'' 2 [1] [3] = Inr example_filled"
  "init_optimization example_filled = Inr example_optimized"
  by (simp_all add: example_defs lib_defs put_def cong: if_cong)

text \<open>
  Claim C1, the code at the failing input. On a new library, \<^verbatim>\<open>setup\<close> and the
  \<^verbatim>\<open>put\<close> of a one-row batch succeed, and the \<^verbatim>\<open>stack\<close> of that row with slip
  \<open>[1]\<close> raises \<^verbatim>\<open>AttributeError\<close>: \<^verbatim>\<open>stack\<close> reads \<^verbatim>\<open>self._stack_switch\<close>, which
  only \<^verbatim>\<open>init_optimization\<close> creates. The lemma \<open>roundtrip_numpy\<close> above shows that
  the written row does come back once \<^verbatim>\<open>_stack_switch\<close> exists and the active backend
  reads the array that \<^verbatim>\<open>put\<close> writes.
\<close>

theorem roundtrip_before_init_optimization:
  "SeismicGFLibrary_init (Some ''Uparr'') [''t0'', ''t1''] [''s0'', ''s1''] = Inr example_library \<and>
   setup_library example_library 2 3 2 4 2 = Inr example_sized \<and>
   put example_sized (Arr2 2 [[5, 7]]) ''t0'' 2 [1] [3] = Inr example_filled \<and>
   stack example_filled ''t0'' [2] [1] [3] [1] = Inl AttributeError"
  by (simp add: example_states) (simp add: example_defs stack_unfold lib_defs)

text \<open>
  Claim C10, the code at the failing inputs. \<^verbatim>\<open>setup\<close> does leave \<^verbatim>\<open>_gfmatrix\<close> all
  zero (lemma \<open>setup_library_zero\<close>), but \<^verbatim>\<open>stack\<close> does not read \<^verbatim>\<open>_gfmatrix\<close>:
  right after \<^verbatim>\<open>setup\<close> it raises \<^verbatim>\<open>AttributeError\<close>, and after a second \<^verbatim>\<open>setup\<close>
  on the library in optimization mode it returns, with either backend, the row
  \<open>[5, 7]\<close> written before the second \<^verbatim>\<open>setup\<close>, because \<^verbatim>\<open>_stack_switch\<close> still names
  the old arrays while \<^verbatim>\<open>_gfmatrix\<close> names the new zero array.
\<close>

theorem stack_after_setup:
  "stack example_sized ''t0'' [2] [1] [3] [1] = Inl AttributeError \<and>
   and_then (setup_library example_optimized 2 3 2 4 2)
     (\<lambda>L. map_sum id fst (stack L ''t0'' [2] [1] [3] [1])) = Inr [5, 7] \<and>
   and_then (setup_library example_optimized 2 3 2 4 2)
     (\<lambda>L. and_then (set_stack_mode L ''numpy'')
        (\<lambda>L. map_sum id fst (stack L ''t0'' [2] [1] [3] [1]))) = Inr [5, 7] \<and>
   and_then (setup_library example_optimized 2 3 2 4 2)
     (\<lambda>L. Inr (gfmatrix L, stack_switch L, read_row (heap L 2) (0, 2, 1, 3),
               read_row (heap L 0) (0, 2, 1, 3))) =
     Inr (Some 2, Some [(''numpy'', 0), (''theano'', 1)], [0, 0], [5, 7])"
  by (simp add: example_defs stack_unfold lib_defs upt_rec)

text \<open>
  On the example library: \<open>''bogus''\<close> is refused before and after
  \<^verbatim>\<open>init_optimization\<close>, and \<^verbatim>\<open>stack_all\<close> on the filled library fails before it.
\<close>

theorem stack_mode_errors_witness:
  "isl (set_stack_mode example_library ''bogus'') \<and>
   isl (set_stack_mode example_optimized ''bogus'') \<and>
   stack_all example_filled [0, 1, 1] [2, 2, 3] [1, 10, 100] = Inl GFLibraryError"
proof -
  have a: "stack_switch example_library = None \<or>
      (\<exists>a b. stack_switch example_library = Some [(''numpy'', a), (''theano'', b)])"
    by (simp add: example_defs)
  have b: "stack_switch example_optimized = None \<or>
      (\<exists>a b. stack_switch example_optimized = Some [(''numpy'', a), (''theano'', b)])"
    by (simp add: example_defs)
  have c: "stack_switch example_filled = None \<or>
      (\<exists>a b. stack_switch example_filled = Some [(''numpy'', a), (''theano'', b)])"
    by (simp add: example_defs)
  have n: "sgfmatrix example_filled = None" by (simp add: example_defs)
  from stack_mode_errors [OF a, of "''bogus''"] stack_mode_errors [OF b, of "''bogus''"]
    stack_mode_errors [OF c, of "''bogus''" "[0, 1, 1]" "[2, 2, 3]" "[1, 10, 100]"] n
  show ?thesis by simp
qed

lemma construct_library_raises:
  "construct_library fault tgts stns risetimes nstarttimes n_samples var = Inl NameError"
  by (simp add: construct_library_def global_name_def module_names_def)

text \<open>
  Claim C5, the code at the failing input, which is every input. The loop over the
  slip components reads the name \<^verbatim>\<open>event\<close>, bound nowhere, when it builds the arguments
  of the constructor at line 686, so that \<^verbatim>\<open>NameError\<close> is raised before a library is
  created or sized; with no slip component the statement \<^verbatim>\<open>if saveflag:\<close> raises it. No
  library is allocated and the forward engine is not called. The size that line 678
  computes for the patch axis before that is \<^verbatim>\<open>fault.nsubfaults\<close>: for the example fault
  of one subfault with 2 by 3 patches it is 1, while \<^verbatim>\<open>get_all_patches\<close> enumerates 6
  patches and \<^verbatim>\<open>nsubpatches\<close> is 6.
\<close>

theorem construction_raises_name_error:
  "seis_construct_gf_linear fault tgts stns risetimes nstarttimes n_samples varnames =
     Inl NameError \<and>
   construct_sizes example_fault [''t0'', ''t1''] [1, 2 :: real] 4 2 = (2, 1, 2, 4, 2) \<and>
   nsubfaults example_fault = 1 \<and>
   nsubpatches example_fault = 6 \<and>
   map_sum id length
     (get_all_patches example_fault grid_patches (Some ''seismic'') (Some ''Uparr'')) = Inr 6"
proof (intro conjI)
  show "seis_construct_gf_linear fault tgts stns risetimes nstarttimes n_samples varnames =
      Inl NameError"
    by (cases varnames)
      (simp_all add: seis_construct_gf_linear_def construct_library_raises global_name_def
        module_names_def)
qed (simp_all add: construct_sizes_def example_fault_def nsubfaults_def nsubpatches_def
    FaultOrdering_init_def get_all_patches_def get_subfault_patches_def check_index_def
    get_subfault_def get_subfault_key_def check_datatype_def check_component_def str_int_def
    py_index_def grid_patches_def upt_rec)

lemma sint16_small: "i < 32768 \<Longrightarrow> sint (word_of_nat i :: 16 word) = int i"
  by (simp add: signed_of_nat signed_take_bit_int_eq_self)

lemma sint16_range: "- 32768 \<le> sint (w :: 16 word) \<and> sint w < 32768"
  using sint_ge [of w] sint_lt [of w] by simp

lemma sint16_wrap: "sint (word_of_nat 32768 :: 16 word) = - 32768"
  by simp

lemma arange_int16_small: "n \<le> 32768 \<Longrightarrow> arange_int16 n = map int [0 ..< n]"
  by (simp add: arange_int16_def sint16_small)

lemma length_arange_int16 [simp]: "length (arange_int16 n) = n"
  by (simp add: arange_int16_def)

lemma nth_arange_int16: "j < n \<Longrightarrow> arange_int16 n ! j = sint (word_of_nat j :: 16 word)"
  by (simp add: arange_int16_def)

lemma arange_int16_valid: "list_all (valid_index n) (arange_int16 n)"
proof (cases "n \<le> 32768")
  case True
  then show ?thesis
    by (simp add: arange_int16_small list_all_iff valid_index_def)
next
  case False
  have "valid_index n (sint (word_of_nat j :: 16 word))" for j
    using sint16_range [of "word_of_nat j"] False by (simp add: valid_index_def)
  then show ?thesis
    by (simp add: arange_int16_def list_all_iff)
qed

lemma nth_concat_uniform:
  "\<forall>b \<in> set x. length b = n \<Longrightarrow> t < length x \<Longrightarrow> p < n \<Longrightarrow> concat x ! (t * n + p) = x ! t ! p"
proof (induction x arbitrary: t)
  case Nil
  then show ?case by simp
next
  case (Cons b x)
  then show ?case by (cases t) (simp_all add: nth_append)
qed

lemma reshape3_id:
  assumes len: "length x = n0"
    and blocks: "\<forall>blk \<in> set x. length blk = n1 \<and> (\<forall>r \<in> set blk. length r = c)"
  shows "reshape3 n0 n1 c x = Inr x"
proof -
  have b1: "\<forall>blk \<in> set x. length blk = n1" using blocks by blast
  have rows: "\<forall>r \<in> set (concat x). length r = c" using blocks by auto
  have l1: "length (concat x) = n0 * n1"
    using length_concat_uniform [OF b1] len by simp
  have l2: "length (concat (concat x)) = n0 * n1 * c"
    using length_concat_uniform [OF rows] l1 by simp
  have cell: "take c (drop ((t * n1 + p) * c) (concat (concat x))) = x ! t ! p"
    if "t < n0" "p < n1" for t p
  proof -
    have "t * n1 + p < n0 * n1"
    proof -
      have "t * n1 + p < t * n1 + n1" using that by simp
      also have "\<dots> = Suc t * n1" by simp
      also have "\<dots> \<le> n0 * n1" using that by (intro mult_le_mono1) simp
      finally show ?thesis .
    qed
    then have "take c (drop ((t * n1 + p) * c) (concat (concat x))) = concat x ! (t * n1 + p)"
      using rows l1 by (intro take_drop_concat_uniform) simp_all
    also have "\<dots> = x ! t ! p"
      using b1 that len by (intro nth_concat_uniform) simp_all
    finally show ?thesis .
  qed
  have "map (\<lambda>t. map (\<lambda>p. take c (drop ((t * n1 + p) * c) (concat (concat x)))) [0 ..< n1]) [0 ..< n0] = x"
  proof (rule nth_equalityI)
    show "length (map (\<lambda>t. map (\<lambda>p. take c (drop ((t * n1 + p) * c) (concat (concat x)))) [0 ..< n1]) [0 ..< n0]) = length x"
      using len by simp
  next
    fix t assume "t < length (map (\<lambda>t. map (\<lambda>p. take c (drop ((t * n1 + p) * c) (concat (concat x)))) [0 ..< n1]) [0 ..< n0])"
    then have t: "t < n0" by simp
    then have lt: "length (x ! t) = n1" using b1 len by simp
    have "map (\<lambda>p. take c (drop ((t * n1 + p) * c) (concat (concat x)))) [0 ..< n1] = x ! t"
      using lt t by (intro nth_equalityI) (simp_all add: cell)
    then show "map (\<lambda>t. map (\<lambda>p. take c (drop ((t * n1 + p) * c) (concat (concat x)))) [0 ..< n1]) [0 ..< n0] ! t = x ! t"
      using t by simp
  qed
  with l2 show ?thesis unfolding reshape3_def by simp
qed

lemma bget_full: "j < length xs \<Longrightarrow> bget xs j = xs ! j"
  by (auto simp: bget_def)

lemma broadcast3_same: "broadcast3 n n n = Some n"
  by (simp add: broadcast3_def broadcast2_def)

lemma fancy_triples_arange:
  assumes "length rs = n" and "length ss = n" and "sh1 B = n"
    and "list_all (valid_index (sh2 B)) rs" and "list_all (valid_index (sh3 B)) ss"
  shows "fancy_triples B (arange_int16 n) rs ss =
           Inr (map (\<lambda>j. (norm_index n (sint (word_of_nat j :: 16 word)),
                           norm_index (sh2 B) (rs ! j), norm_index (sh3 B) (ss ! j)))
                  [0 ..< n])"
proof -
  have "map (\<lambda>j. (norm_index (sh1 B) (bget (arange_int16 n) j),
                   norm_index (sh2 B) (bget rs j), norm_index (sh3 B) (bget ss j))) [0 ..< n] =
        map (\<lambda>j. (norm_index n (sint (word_of_nat j :: 16 word)),
                   norm_index (sh2 B) (rs ! j), norm_index (sh3 B) (ss ! j))) [0 ..< n]"
    using assms(1-3) by (intro map_cong) (simp_all add: bget_full nth_arange_int16)
  then show ?thesis
    using assms arange_int16_valid [of n]
    by (simp add: fancy_triples_def broadcast3_same)
qed

lemma stack_all_general:
  assumes a: "gfmatrix L = Some a" and b: "sgfmatrix L = Some b"
    and pidx: "patchidxs L = Some (arange_int16 (sh1 (heap L a)))"
    and s0: "sh0 (heap L b) = sh0 (heap L a)" and s1: "sh1 (heap L b) = sh1 (heap L a)"
    and s4: "sh4 (heap L b) = sh4 (heap L a)"
    and lr: "length rs = sh1 (heap L a)" and ls: "length ss = sh1 (heap L a)"
    and lu: "length slips = sh1 (heap L a)"
    and vr: "list_all (valid_index (sh2 (heap L b))) rs"
    and vs: "list_all (valid_index (sh3 (heap L b))) ss"
  shows "stack_all L rs ss slips =
           Inr (map (\<lambda>t. map (\<lambda>k. sum_list (map (\<lambda>p.
                       dat (heap L b)
                         (t, norm_index (sh1 (heap L a)) (sint (word_of_nat p :: 16 word)),
                          norm_index (sh2 (heap L b)) (rs ! p), norm_index (sh3 (heap L b)) (ss ! p)) k
                       * slips ! p) [0 ..< sh1 (heap L a)]))
                     [0 ..< sh4 (heap L a)])
                  [0 ..< sh0 (heap L a)])"
proof -
  let ?B = "heap L b"
  let ?nt = "sh0 (heap L a)" and ?np = "sh1 (heap L a)" and ?ns = "sh4 (heap L a)"
  let ?c = "\<lambda>j. (norm_index ?np (sint (word_of_nat j :: 16 word)),
                 norm_index (sh2 ?B) (rs ! j), norm_index (sh3 ?B) (ss ! j))"
  define ts where "ts = map ?c [0 ..< ?np]"
  define x where "x = map (\<lambda>t. map (\<lambda>(p, r, s). read_row ?B (t, p, r, s)) ts) [0 ..< sh0 ?B]"
  have ft: "fancy_triples ?B (arange_int16 ?np) rs ss = Inr ts"
    unfolding ts_def using lr ls s1 vr vs by (rule fancy_triples_arange)
  have rs3: "reshape3 ?nt ?np ?ns x = Inr x"
    by (rule reshape3_id) (auto simp: x_def ts_def s0 s4)
  have cell: "x ! t ! p ! k =
      dat ?B (t, norm_index ?np (sint (word_of_nat p :: 16 word)),
              norm_index (sh2 ?B) (rs ! p), norm_index (sh3 ?B) (ss ! p)) k"
    if "t < ?nt" "p < ?np" "k < ?ns" for t p k
    using that by (simp add: x_def ts_def s0 s4 read_row_def)
  have res: "map (\<lambda>t. map (\<lambda>k. sum_list (map (\<lambda>p. x ! t ! p ! k * slips ! p) [0 ..< ?np])) [0 ..< ?ns])
          [0 ..< ?nt] =
        map (\<lambda>t. map (\<lambda>k. sum_list (map (\<lambda>p.
               dat ?B (t, norm_index ?np (sint (word_of_nat p :: 16 word)),
                       norm_index (sh2 ?B) (rs ! p), norm_index (sh3 ?B) (ss ! p)) k
               * slips ! p) [0 ..< ?np])) [0 ..< ?ns])
          [0 ..< ?nt]"
  proof (intro map_cong refl arg_cong [where f = sum_list])
    fix t k p
    assume "t \<in> set [0 ..< ?nt]" "k \<in> set [0 ..< ?ns]" "p \<in> set [0 ..< ?np]"
    then have "t < ?nt" "p < ?np" "k < ?ns" by simp_all
    then show "x ! t ! p ! k * slips ! p =
        dat ?B (t, norm_index ?np (sint (word_of_nat p :: 16 word)),
                norm_index (sh2 ?B) (rs ! p), norm_index (sh3 ?B) (ss ! p)) k * slips ! p"
      by (simp only: cell)
  qed
  have bc: "broadcast2 ?np (length slips) = Some ?np"
    by (simp add: broadcast2_def lu)
  have unb: "map (\<lambda>t. map (\<lambda>k. sum_list (map (\<lambda>j. bget (x ! t) j ! k * bget slips j) [0 ..< ?np]))
                [0 ..< ?ns]) [0 ..< ?nt] =
        map (\<lambda>t. map (\<lambda>k. sum_list (map (\<lambda>p. x ! t ! p ! k * slips ! p) [0 ..< ?np])) [0 ..< ?ns])
          [0 ..< ?nt]"
  proof (intro map_cong refl arg_cong [where f = sum_list])
    fix t k p
    assume "t \<in> set [0 ..< ?nt]" "p \<in> set [0 ..< ?np]"
    then have t: "t < ?nt" and p: "p < ?np" by simp_all
    from t have "length (x ! t) = ?np" by (simp add: x_def ts_def s0)
    with p have "bget (x ! t) p = x ! t ! p" by (simp add: bget_full)
    moreover from p have "bget slips p = slips ! p" by (simp add: bget_full lu)
    ultimately show "bget (x ! t) p ! k * bget slips p = x ! t ! p ! k * slips ! p"
      by simp
  qed
  have "stack_all L rs ss slips =
      Inr (map (\<lambda>t. map (\<lambda>k. sum_list (map (\<lambda>j. bget (x ! t) j ! k * bget slips j) [0 ..< ?np]))
                [0 ..< ?ns]) [0 ..< ?nt])"
    unfolding stack_all_def
    by (simp add: a b pidx ft lib_ntargets_def lib_npatches_def lib_nsamples_def
        shape_property_def x_def [symmetric] rs3 bc)
  with unb res show ?thesis by simp
qed

lemma norm_index_nat [simp]: "norm_index d (int j) = j"
  by (simp add: norm_index_def)

lemma valid_index_nat [simp]: "valid_index d (int j) \<longleftrightarrow> j < d"
  by (simp add: valid_index_def)

lemma stack_single:
  assumes t: "fst (target_index_mapping L) tg = Some t" and tl: "t < sh0 (heap L c)"
    and sw: "stack_switch L = Some sw" and act: "map_of sw (mode L) = Some c"
    and a: "gfmatrix L = Some a" and s4: "sh4 (heap L c) = sh4 (heap L a)"
    and p: "p < sh1 (heap L c)"
    and r: "valid_index (sh2 (heap L c)) r" and s: "valid_index (sh3 (heap L c)) s"
  shows "map_sum id fst (stack L tg [int p] [r] [s] [u]) =
           Inr (map (\<lambda>k. dat (heap L c)
                            (t, p, norm_index (sh2 (heap L c)) r, norm_index (sh3 (heap L c)) s) k * u)
                  [0 ..< sh4 (heap L a)])"
proof -
  let ?C = "heap L c"
  let ?co = "(t, p, norm_index (sh2 ?C) r, norm_index (sh3 ?C) s)"
  have fc: "fancy_coords ?C (int t) [int p] [r] [s] = Inr [?co]"
    using tl p r s by (simp add: fancy_coords_single)
  have ns: "lib_nsamples L = Inr (sh4 (heap L a))"
    by (simp add: lib_nsamples_def shape_property_def a)
  have rs: "reshape2 (Suc 0) (sh4 (heap L a)) [read_row ?C ?co] = Inr [read_row ?C ?co]"
    by (rule reshape2_id) (simp_all add: s4)
  have d: "dot_T (sh4 (heap L a)) [read_row ?C ?co] [u] =
      map (\<lambda>k. dat ?C ?co k * u) [0 ..< sh4 (heap L a)]"
    by (simp add: dot_T_def read_row_def s4)
  show ?thesis
    unfolding stack_unfold
    by (simp add: t sw act fc ns rs d)
qed

lemma weighted_patch_sum_eq:
  assumes "n0 = sh0 B" "n1 = sh1 B" "n4 = sh4 B"
  shows "map (\<lambda>t. map (\<lambda>k. sum_list (map (\<lambda>p.
               dat B (t, p, norm_index (sh2 B) (rs ! p), norm_index (sh3 B) (ss ! p)) k * slips ! p)
               [0 ..< n1])) [0 ..< n4]) [0 ..< n0] =
         weighted_patch_sum B rs ss slips"
  unfolding weighted_patch_sum_def assms
proof (intro map_cong refl arg_cong [where f = sum_list])
  fix t k p
  assume "k \<in> set [0 ..< sh4 B]"
  then have "k < sh4 B" by simp
  then show "dat B (t, p, norm_index (sh2 B) (rs ! p), norm_index (sh3 B) (ss ! p)) k * slips ! p =
      slips ! p * selected_trace B rs ss t p ! k"
    by (simp add: selected_trace_def read_row_def)
qed

text \<open>
  The states in which \<^verbatim>\<open>stack_all\<close> is used: \<^verbatim>\<open>setup\<close> assigns the array and the
  patch indices together, \<^verbatim>\<open>put\<close> keeps both and the shape of the array, and
  \<^verbatim>\<open>init_optimization\<close> captures a copy of the array as it is then.
\<close>

lemma shape_fold_write_row:
  "sh0 (fold (\<lambda>j b. write_row b (cs ! j) (f j)) js a) = sh0 a \<and>
   sh1 (fold (\<lambda>j b. write_row b (cs ! j) (f j)) js a) = sh1 a \<and>
   sh2 (fold (\<lambda>j b. write_row b (cs ! j) (f j)) js a) = sh2 a \<and>
   sh3 (fold (\<lambda>j b. write_row b (cs ! j) (f j)) js a) = sh3 a \<and>
   sh4 (fold (\<lambda>j b. write_row b (cs ! j) (f j)) js a) = sh4 a"
  by (induction js arbitrary: a) simp_all

lemma assign_rows_shape:
  assumes "assign_rows a tidx p rs ss ncols rows = Inr b"
  shows "sh0 b = sh0 a \<and> sh1 b = sh1 a \<and> sh2 b = sh2 a \<and> sh3 b = sh3 a \<and> sh4 b = sh4 a"
  using assms shape_fold_write_row [of _ "bget rows" _ a]
  by (auto simp: assign_rows_def split: sum.splits if_splits)

lemma setup_library_patchidxs:
  assumes "setup_library L n0 n1 n2 n3 n4 = Inr L'"
  shows "\<exists>a. gfmatrix L' = Some a \<and> patchidxs L' = Some (arange_int16 (sh1 (heap L' a)))"
  using assms by (auto simp: setup_library_def zeros5_def split: if_splits)

lemma put_keeps_shape:
  assumes "put L ents tg p rs ss = Inr L'" and "gfmatrix L = Some a"
  shows "gfmatrix L' = Some a \<and> patchidxs L' = patchidxs L \<and>
         sh0 (heap L' a) = sh0 (heap L a) \<and> sh1 (heap L' a) = sh1 (heap L a) \<and>
         sh2 (heap L' a) = sh2 (heap L a) \<and> sh3 (heap L' a) = sh3 (heap L a) \<and>
         sh4 (heap L' a) = sh4 (heap L a)"
proof (cases ents)
  case (Arr1 xs)
  with assms show ?thesis by (simp add: put_def)
next
  case (Arr2 ncols rows)
  with assms show ?thesis
    by (auto simp: put_Arr2 split: option.splits sum.splits if_splits dest: assign_rows_shape)
qed

lemma init_optimization_captures:
  assumes "init_optimization L = Inr L'"
  shows "\<exists>a b. gfmatrix L' = Some a \<and> sgfmatrix L' = Some b \<and> heap L' b = heap L' a \<and>
           patchidxs L' = patchidxs L \<and> heap L' a = heap L a \<and>
           stack_switch L' = Some [(''numpy'', a), (''theano'', b)]"
  using assms by (rule init_optimization_Inr) auto

text \<open>
  Where the 16-bit patch indices suffice, \<^verbatim>\<open>stack_all\<close> computes what the
  specification says. Let \<^verbatim>\<open>_gfmatrix\<close> name the array \<open>a\<close> and \<^verbatim>\<open>_sgfmatrix\<close> the
  array \<open>b\<close> that \<^verbatim>\<open>init_optimization\<close> captured, of the same shape, with
  \<^verbatim>\<open>_patchidxs\<close> as \<^verbatim>\<open>setup\<close> assigned it and at most 32768 patches. For one valid
  rise-time index and one valid start-time index per patch and one slip amplitude per
  patch, \<^verbatim>\<open>stack_all\<close> returns the matrix \<open>weighted_patch_sum\<close> of the captured array,
  and the single-patch calls of \<^verbatim>\<open>stack\<close> at a target, on an array with the same
  entries, add up to the row of that target.
\<close>

lemma stack_all_weighted_sum:
  assumes a: "gfmatrix L = Some a" and b: "sgfmatrix L = Some b"
    and pidx: "patchidxs L = Some (arange_int16 (sh1 (heap L a)))"
    and s0: "sh0 (heap L b) = sh0 (heap L a)" and s1: "sh1 (heap L b) = sh1 (heap L a)"
    and s4: "sh4 (heap L b) = sh4 (heap L a)"
    and small: "sh1 (heap L a) \<le> 32768"
    and lr: "length rs = sh1 (heap L a)" and ls: "length ss = sh1 (heap L a)"
    and lu: "length slips = sh1 (heap L a)"
    and vr: "list_all (valid_index (sh2 (heap L b))) rs"
    and vs: "list_all (valid_index (sh3 (heap L b))) ss"
  shows "stack_all L rs ss slips = Inr (weighted_patch_sum (heap L b) rs ss slips) \<and>
         length (weighted_patch_sum (heap L b) rs ss slips) = sh0 (heap L a) \<and>
         list_all (\<lambda>row. length row = sh4 (heap L a)) (weighted_patch_sum (heap L b) rs ss slips) \<and>
         (\<forall>tg t sw c.
            fst (target_index_mapping L) tg = Some t \<and> t < sh0 (heap L a) \<and>
            stack_switch L = Some sw \<and> map_of sw (mode L) = Some c \<and> heap L c = heap L b \<longrightarrow>
            (\<exists>ws. list_all2
                     (\<lambda>p w. map_sum id fst
                               (stack L tg [int p] [rs ! p] [ss ! p] [slips ! p]) = Inr w)
                     [0 ..< sh1 (heap L a)] ws \<and>
                  weighted_patch_sum (heap L b) rs ss slips ! t =
                    elementwise_sum (sh4 (heap L a)) ws))"
proof (intro conjI allI impI)
  let ?B = "heap L b"
  let ?np = "sh1 (heap L a)"
  have pc: "norm_index ?np (sint (word_of_nat p :: 16 word)) = p" if "p < ?np" for p
    using that small by (simp add: sint16_small)
  have "map (\<lambda>t. map (\<lambda>k. sum_list (map (\<lambda>p.
               dat ?B (t, norm_index ?np (sint (word_of_nat p :: 16 word)),
                       norm_index (sh2 ?B) (rs ! p), norm_index (sh3 ?B) (ss ! p)) k * slips ! p)
               [0 ..< ?np])) [0 ..< sh4 (heap L a)]) [0 ..< sh0 (heap L a)] =
        map (\<lambda>t. map (\<lambda>k. sum_list (map (\<lambda>p.
               dat ?B (t, p, norm_index (sh2 ?B) (rs ! p), norm_index (sh3 ?B) (ss ! p)) k * slips ! p)
               [0 ..< ?np])) [0 ..< sh4 (heap L a)]) [0 ..< sh0 (heap L a)]"
    by (intro map_cong refl arg_cong [where f = sum_list]) (simp add: pc)
  also have "\<dots> = weighted_patch_sum ?B rs ss slips"
    by (rule weighted_patch_sum_eq) (simp_all add: s0 s1 s4)
  finally show "stack_all L rs ss slips = Inr (weighted_patch_sum ?B rs ss slips)"
    using stack_all_general [OF a b pidx s0 s1 s4 lr ls lu vr vs] by simp
  show "length (weighted_patch_sum ?B rs ss slips) = sh0 (heap L a)"
    by (simp add: weighted_patch_sum_def s0)
  show "list_all (\<lambda>row. length row = sh4 (heap L a)) (weighted_patch_sum ?B rs ss slips)"
    by (simp add: weighted_patch_sum_def s4 list_all_iff)
next
  fix tg t sw c
  let ?B = "heap L b"
  let ?np = "sh1 (heap L a)" and ?ns = "sh4 (heap L a)"
  assume h: "fst (target_index_mapping L) tg = Some t \<and> t < sh0 (heap L a) \<and>
            stack_switch L = Some sw \<and> map_of sw (mode L) = Some c \<and> heap L c = heap L b"
  let ?w = "\<lambda>p. map (\<lambda>k. dat ?B (t, p, norm_index (sh2 ?B) (rs ! p), norm_index (sh3 ?B) (ss ! p)) k
                           * slips ! p) [0 ..< ?ns]"
  have one: "map_sum id fst (stack L tg [int p] [rs ! p] [ss ! p] [slips ! p]) = Inr (?w p)"
    if "p < ?np" for p
  proof -
    from that lr ls vr vs have "valid_index (sh2 ?B) (rs ! p)" "valid_index (sh3 ?B) (ss ! p)"
      by (simp_all add: list_all_length)
    with h that show ?thesis
      using stack_single [of L tg t c sw a p "rs ! p" "ss ! p" "slips ! p"]
      by (simp add: a s0 s1 s4)
  qed
  have l2: "list_all2 (\<lambda>p w. map_sum id fst (stack L tg [int p] [rs ! p] [ss ! p] [slips ! p]) = Inr w)
      [0 ..< ?np] (map ?w [0 ..< ?np])"
    by (simp add: list_all2_conv_all_nth one)
  have "weighted_patch_sum ?B rs ss slips ! t = elementwise_sum ?ns (map ?w [0 ..< ?np])"
  proof -
    have "weighted_patch_sum ?B rs ss slips ! t =
        map (\<lambda>k. sum_list (map (\<lambda>p. slips ! p * selected_trace ?B rs ss t p ! k) [0 ..< ?np])) [0 ..< ?ns]"
      using h by (simp add: weighted_patch_sum_def s0 s1 s4)
    also have "\<dots> = map (\<lambda>k. sum_list (map (\<lambda>p. ?w p ! k) [0 ..< ?np])) [0 ..< ?ns]"
      by (intro map_cong refl arg_cong [where f = sum_list])
        (simp add: selected_trace_def read_row_def s4)
    also have "\<dots> = elementwise_sum ?ns (map ?w [0 ..< ?np])"
      by (simp add: elementwise_sum_def comp_def)
    finally show ?thesis .
  qed
  with l2 show "\<exists>ws. list_all2
                     (\<lambda>p w. map_sum id fst
                               (stack L tg [int p] [rs ! p] [ss ! p] [slips ! p]) = Inr w)
                     [0 ..< ?np] ws \<and>
                  weighted_patch_sum ?B rs ss slips ! t = elementwise_sum ?ns ws"
    by blast
qed

lemma wide_library_state:
  "and_then (SeismicGFLibrary_init (Some ''Uparr'') [''t0''] [''s0''])
     (\<lambda>L. and_then (setup_library L 1 32769 1 1 1)
        (\<lambda>L. and_then (put L (Arr2 1 [[1]]) ''t0'' 1 [0] [0]) init_optimization)) =
   Inr wide_library"
  by (simp add: wide_library_def SeismicGFLibrary_init_def setup_library_def nstations_def
      put_Arr2 target_index_mapping_def target_dict_def enumerate_eq_zip assign_rows_def
      fancy_coords_single valid_index_def norm_index_def bget_def zeros5_def
      init_optimization_def set_stack_mode_def write_row_def cong: if_cong)

lemma sum_list_map_zero:
  "(\<And>x. x \<in> set xs \<Longrightarrow> f x = (0 :: real)) \<Longrightarrow> sum_list (map f xs) = 0"
  by (induction xs) simp_all

lemma sum_list_upt_last:
  fixes f :: "nat \<Rightarrow> real"
  assumes "\<And>p. p < n \<Longrightarrow> f p = 0"
  shows "sum_list (map f [0 ..< Suc n]) = f n"
proof -
  have "sum_list (map f [0 ..< n]) = 0"
    using assms by (intro sum_list_map_zero) simp
  then show ?thesis by simp
qed

lemma wide_slips:
  "p < 32768 \<Longrightarrow> (replicate 32768 (0 :: real) @ [1]) ! p = 0"
  "(replicate 32768 (0 :: real) @ [1]) ! 32768 = 1"
  by (simp_all add: nth_append)

lemma wide_stack_all:
  "stack_all wide_library (replicate 32769 0) (replicate 32769 0) (replicate 32768 0 @ [1]) = Inr [[1]]"
proof -
  let ?W = "write_row (zeros5 1 32769 1 1 1) (0, 1, 0, 0) [1]"
  let ?R = "replicate 32769 (0 :: int)"
  let ?U = "replicate 32768 (0 :: real) @ [1]"
  let ?f = "\<lambda>p. dat ?W (0, norm_index 32769 (sint (word_of_nat p :: 16 word)),
                        norm_index 1 (?R ! p), norm_index 1 (?R ! p)) 0 * ?U ! p"
  have h0: "heap wide_library 0 = ?W" and h1: "heap wide_library 1 = ?W"
    by (simp_all add: wide_library_def)
  have sh: "sh0 ?W = 1" "sh1 ?W = 32769" "sh2 ?W = 1" "sh3 ?W = 1" "sh4 ?W = 1"
    by (simp_all add: zeros5_def)
  have a: "gfmatrix wide_library = Some 0" and b: "sgfmatrix wide_library = Some 1"
    by (simp_all add: wide_library_def)
  have pidx: "patchidxs wide_library = Some (arange_int16 (sh1 (heap wide_library 0)))"
    by (simp add: wide_library_def zeros5_def)
  have s: "sh0 (heap wide_library 1) = sh0 (heap wide_library 0)"
    "sh1 (heap wide_library 1) = sh1 (heap wide_library 0)"
    "sh4 (heap wide_library 1) = sh4 (heap wide_library 0)"
    unfolding h0 h1 by simp_all
  have lr: "length ?R = sh1 (heap wide_library 0)" and lu: "length ?U = sh1 (heap wide_library 0)"
    unfolding h0 by (simp_all add: zeros5_def)
  have vr: "list_all (valid_index (sh2 (heap wide_library 1))) ?R"
    and vs: "list_all (valid_index (sh3 (heap wide_library 1))) ?R"
    unfolding h1 by (simp_all add: zeros5_def list_all_iff valid_index_def)
  from stack_all_general [OF a b pidx s lr lr lu vr vs]
  have g: "stack_all wide_library ?R ?R ?U = Inr [[sum_list (map ?f [0 ..< 32769])]]"
    unfolding h0 h1 by (simp add: zeros5_def)
  have last: "?f 32768 = 1"
    by (simp add: wide_slips norm_index_def write_row_def zeros5_def)
  have "sum_list (map ?f [0 ..< Suc 32768]) = ?f 32768"
    by (rule sum_list_upt_last) (simp add: wide_slips)
  moreover have "Suc 32768 = 32769" by simp
  ultimately have "sum_list (map ?f [0 ..< 32769]) = 1"
    using last by simp
  with g show ?thesis by simp
qed

lemma wide_weighted_patch_sum:
  "weighted_patch_sum (heap wide_library 1) (replicate 32769 0) (replicate 32769 0)
     (replicate 32768 0 @ [1]) = [[0]]"
proof -
  let ?W = "write_row (zeros5 1 32769 1 1 1) (0, 1, 0, 0) [1]"
  let ?R = "replicate 32769 (0 :: int)"
  let ?U = "replicate 32768 (0 :: real) @ [1]"
  let ?f = "\<lambda>p. ?U ! p * selected_trace ?W ?R ?R 0 p ! 0"
  have h1: "heap wide_library 1 = ?W"
    by (simp add: wide_library_def)
  have last: "?f 32768 = 0"
    by (simp add: selected_trace_def read_row_def write_row_def zeros5_def)
  have "sum_list (map ?f [0 ..< Suc 32768]) = ?f 32768"
    by (rule sum_list_upt_last) (simp add: wide_slips)
  moreover have "Suc 32768 = 32769" by simp
  ultimately have "sum_list (map ?f [0 ..< 32769]) = 0"
    using last by simp
  then show ?thesis
    unfolding h1 by (simp add: weighted_patch_sum_def zeros5_def)
qed

text \<open>
  Claim C2, the code at the failing input: a library with 32769 patches in optimization
  mode. \<^verbatim>\<open>setup\<close> stores the patch indices with \<^verbatim>\<open>dtype='int16'\<close>, where the index
  32768 becomes -32768, which \<^verbatim>\<open>stack_all\<close> reads as patch 1. For the tensor whose only
  non-zero trace belongs to patch 1 and the slip vector whose only non-zero amplitude
  belongs to patch 32768, \<^verbatim>\<open>stack_all\<close> returns \<open>[[1]]\<close>, where the weighted sum of the
  specification is \<open>[[0]]\<close>. \<^verbatim>\<open>stack\<close>, which takes the patch indices from its caller,
  reads patch 32768 as patch 32768 and returns its zero trace.
\<close>

theorem stack_all_int16_patch_indices:
  "and_then (SeismicGFLibrary_init (Some ''Uparr'') [''t0''] [''s0''])
     (\<lambda>L. and_then (setup_library L 1 32769 1 1 1)
        (\<lambda>L. and_then (put L (Arr2 1 [[1]]) ''t0'' 1 [0] [0]) init_optimization)) =
     Inr wide_library \<and>
   stack_all wide_library (replicate 32769 0) (replicate 32769 0) (replicate 32768 0 @ [1]) =
     Inr [[1]] \<and>
   weighted_patch_sum (heap wide_library 1) (replicate 32769 0) (replicate 32769 0)
     (replicate 32768 0 @ [1]) = [[0]] \<and>
   map_sum id fst (stack wide_library ''t0'' [32768] [0] [0] [1]) = Inr [0] \<and>
   map_sum id fst (stack wide_library ''t0'' [1] [0] [0] [1]) = Inr [1]"
proof -
  have "map_sum id fst (stack wide_library ''t0'' [32768] [0] [0] [1]) = Inr [0]"
    "map_sum id fst (stack wide_library ''t0'' [1] [0] [0] [1]) = Inr [1]"
    by (simp_all add: wide_library_def stack_unfold lib_defs upt_rec)
  with wide_library_state wide_stack_all wide_weighted_patch_sum show ?thesis
    by simp
qed

text \<open>
  On the example library in optimization mode, with the selection (rise time, start
  time, slip) = (0, 2, 1), (1, 2, 10), (1, 3, 100) for the patches 0, 1, 2: the matrix of
  \<^verbatim>\<open>stack_all\<close>, and the three single-patch stacks at target \<open>''t0''\<close> that add up to
  its first row.
\<close>

lemma stack_all_example:
  "stack_all example_optimized [0, 1, 1] [2, 2, 3] [1, 10, 100] = Inr [[500, 700], [0, 0]] \<and>
   map_sum id fst (stack example_optimized ''t0'' [0] [0] [2] [1]) = Inr [0, 0] \<and>
   map_sum id fst (stack example_optimized ''t0'' [1] [1] [2] [10]) = Inr [0, 0] \<and>
   map_sum id fst (stack example_optimized ''t0'' [2] [1] [3] [100]) = Inr [500, 700] \<and>
   elementwise_sum 2 [[0, 0], [0, 0], [500, 700]] = [500, 700]"
proof -
  let ?L = example_optimized
  let ?B = "write_row (zeros5 2 3 2 4 2) (0, 2, 1, 3) [5, 7]"
  have h0: "heap ?L 0 = ?B" and h1: "heap ?L 1 = ?B"
    by (simp_all add: example_defs)
  have a: "gfmatrix ?L = Some 0" and b: "sgfmatrix ?L = Some 1"
    by (simp_all add: example_defs)
  have pidx: "patchidxs ?L = Some (arange_int16 (sh1 (heap ?L 0)))"
    by (simp add: example_defs zeros5_def)
  have s: "sh0 (heap ?L 1) = sh0 (heap ?L 0)" "sh1 (heap ?L 1) = sh1 (heap ?L 0)"
    "sh4 (heap ?L 1) = sh4 (heap ?L 0)"
    unfolding h0 h1 by simp_all
  have small: "sh1 (heap ?L 0) \<le> 32768"
    unfolding h0 by (simp add: zeros5_def)
  have l: "length [0, 1, 1 :: int] = sh1 (heap ?L 0)" "length [2, 2, 3 :: int] = sh1 (heap ?L 0)"
    "length [1, 10, 100 :: real] = sh1 (heap ?L 0)"
    unfolding h0 by (simp_all add: zeros5_def)
  have v: "list_all (valid_index (sh2 (heap ?L 1))) [0, 1, 1]"
    "list_all (valid_index (sh3 (heap ?L 1))) [2, 2, 3]"
    unfolding h1 by (simp_all add: zeros5_def valid_index_def)
  have w: "weighted_patch_sum ?B [0, 1, 1] [2, 2, 3] [1, 10, 100] = [[500, 700], [0, 0]]"
    by (simp add: weighted_patch_sum_def selected_trace_def read_row_def write_row_def zeros5_def
        norm_index_def upt_rec)
  from stack_all_weighted_sum [OF a b pidx s small l v]
  have "stack_all ?L [0, 1, 1] [2, 2, 3] [1, 10, 100] =
      Inr (weighted_patch_sum (heap ?L 1) [0, 1, 1] [2, 2, 3] [1, 10, 100])"
    by blast
  then have 1: "stack_all ?L [0, 1, 1] [2, 2, 3] [1, 10, 100] = Inr [[500, 700], [0, 0]]"
    unfolding h1 w .
  have 2: "map_sum id fst (stack ?L ''t0'' [0] [0] [2] [1]) = Inr [0, 0]"
    "map_sum id fst (stack ?L ''t0'' [1] [1] [2] [10]) = Inr [0, 0]"
    "map_sum id fst (stack ?L ''t0'' [2] [1] [3] [100]) = Inr [500, 700]"
    by (simp_all add: example_defs stack_unfold lib_defs upt_rec)
  have 3: "elementwise_sum 2 [[0, 0], [0, 0], [500, 700 :: real]] = [500, 700]"
    by (simp add: elementwise_sum_def upt_rec)
  from 1 2 3 show ?thesis by blast
qed

end
